theory Spec2Isabelle
  imports Complex_Main "HOL-Library.Word"
begin

unbundle bit_operations_syntax

section \<open>Data model of the geometry resource\<close>

text \<open>
  The development follows the class \<open>Tw2GeometryRes\<close>. Objects are records, JavaScript
  arrays are lists, a thrown error is the left summand of a sum type. Numbers that the
  source keeps in \<open>vec3\<close> values and in \<open>Float32Array\<close>s are floating point; the bounds
  code only moves them around, so their type is left as a parameter \<open>'a\<close> with a zero.
  Field names carry the prefix of their class where two classes share a name, and the
  private fields lose their leading underscore.
\<close>

type_synonym 'a vec3 = "'a \<times> 'a \<times> 'a"

datatype index_type = UNSIGNED_SHORT | UNSIGNED_INT

datatype primitive_mode = TRIANGLES | LINES

text \<open>The result of a JavaScript division, where dividing by zero is not an error.\<close>

datatype jsnum = Finite real | Infinity | NaN

record Tw2GeometryMeshArea =
  area_name :: string
  area_start :: nat
  area_count :: nat

record Tw2VertexElement =
  usage :: nat
  usageIndex :: nat
  fileType :: nat
  elements :: nat
  offset :: nat

record Tw2VertexDeclaration =
  decl_elements :: "Tw2VertexElement list"
  stride :: nat

record 'a Tw2GeometryMesh =
  mesh_name :: string
  mesh_declaration :: Tw2VertexDeclaration
  areas :: "Tw2GeometryMeshArea list"
  bufferLength :: nat
  buffer :: "nat option"
  indexes :: "nat option"
  indexType :: index_type
  mesh_minBounds :: "'a vec3"
  mesh_maxBounds :: "'a vec3"
  mesh_boundsDirty :: bool
  boneBindings :: "string list"
  boneBounds :: "(string \<times> ('a vec3 \<times> 'a vec3)) list"
  bufferData :: "'a list option"
  indexData :: "nat list option"
  count_areas :: nat
  count_faces :: jsnum
  count_vertices :: jsnum

record 'a Tw2GeometryBone =
  bone_name :: string
  boundingBox :: "('a vec3 \<times> 'a vec3) option"

text \<open>
  A mesh binding refers to bones of the model it belongs to; the reference is the
  position of the bone in the model's skeleton.
\<close>

record 'a Tw2GeometryMeshBinding =
  binding_mesh :: "'a Tw2GeometryMesh"
  binding_bones :: "nat list"

record 'a Tw2GeometryModel =
  model_name :: string
  skeleton :: "'a Tw2GeometryBone list option"
  meshBindings :: "'a Tw2GeometryMeshBinding list"

datatype Tw2GeometryAnimation = Tw2GeometryAnimation string

datatype custom_factory = CustomFactory string string

record 'a Tw2GeometryRes =
  path :: string
  isGood :: bool
  meshes :: "'a Tw2GeometryMesh list"
  minBounds :: "'a vec3"
  maxBounds :: "'a vec3"
  boundsSpherePosition :: "'a vec3"
  boundsSphereRadius :: 'a
  models :: "'a Tw2GeometryModel list"
  animations :: "Tw2GeometryAnimation list"
  isCustom :: bool
  requiresSystemMirror :: bool
  requestResponseType :: "string option"
  extension :: "string option"
  boundsDirty :: bool
  custom :: "custom_factory option"

text \<open>The vertex input of one effect pass, as far as the resource looks at it.\<close>

record Tw2PassInput =
  input_elements :: "Tw2VertexElement list"

datatype error =
    ErrGeometryFileType string nat
  | ErrGeometryMeshBoneNameInvalid string string string string
  | ErrGeometryMeshAreaMissing string nat
  | ErrGeometryMeshEffectBinding string nat Tw2PassInput nat
  | ErrResourceFormatUnsupported "string option"
  | ErrReaderOutOfData
  | TypeError

text \<open>The calls the resource makes on the device, the effect and its own base class.\<close>

datatype buffer_target = ARRAY_BUFFER | ELEMENT_ARRAY_BUFFER

datatype event =
    KeepAlive
  | BindBuffer buffer_target "nat option"
  | BufferData buffer_target nat
  | ApplyPass string nat
  | SetDeclaration Tw2VertexDeclaration Tw2PassInput nat
  | SetPartialDeclaration Tw2VertexDeclaration Tw2PassInput nat "(nat \<times> nat) option"
  | ApplyShadowState
  | DrawElements primitive_mode nat index_type nat
  | DrawElementsInstanced primitive_mode nat index_type nat nat
  | ResetInstanceDivisors
  | OnError error

subsection \<open>Collaborators outside the class\<close>

text \<open>
  The \<open>box3.bounds\<close> helpers of the math library and the bounds method of
  \<open>Tw2GeometryMesh\<close> are called by the resource but defined elsewhere. They are taken as
  parameters, with the shape the calls give them: \<open>empty(min, max)\<close> stores the
  empty-bounds sentinel in its two arguments, \<open>union(outMin, outMax, aMin, aMax, bMin, bMax)\<close>
  stores the union of two boxes, \<open>toPositionRadius(min, max, outPosition)\<close> stores a
  centre and returns a radius, and \<open>mesh.RebuildBounds(force)\<close> updates the mesh.
\<close>

record 'a bounds_lib =
  bounds_empty :: "'a vec3 \<times> 'a vec3"
  bounds_union :: "'a vec3 \<times> 'a vec3 \<Rightarrow> 'a vec3 \<times> 'a vec3 \<Rightarrow> 'a vec3 \<times> 'a vec3"
  bounds_toPositionRadius :: "'a vec3 \<times> 'a vec3 \<Rightarrow> 'a vec3 \<times> 'a"
  mesh_RebuildBounds :: "bool \<Rightarrow> 'a Tw2GeometryMesh \<Rightarrow> 'a Tw2GeometryMesh"

section \<open>RebuildBounds\<close>

text \<open>
  The second loop of \<open>RebuildBounds\<close>: every mesh rebuilds its own bounds and its box is
  united into the running box of the resource. The result is the list of rebuilt meshes
  and the box.
\<close>

fun rebuild_meshes ::
  "'a bounds_lib \<Rightarrow> bool \<Rightarrow> 'a Tw2GeometryMesh list \<Rightarrow> 'a vec3 \<times> 'a vec3 \<Rightarrow>
   'a Tw2GeometryMesh list \<times> ('a vec3 \<times> 'a vec3)" where
  "rebuild_meshes lib force [] box = ([], box)"
| "rebuild_meshes lib force (m # ms) box =
     (let mesh = mesh_RebuildBounds lib force m;
          box' = bounds_union lib box (mesh_minBounds mesh, mesh_maxBounds mesh);
          (ms', box'') = rebuild_meshes lib force ms box'
      in (mesh # ms', box''))"

text \<open>The first loop: an owned mesh that is dirty makes the resource dirty.\<close>

definition pull_dirty :: "bool \<Rightarrow> 'a Tw2GeometryRes \<Rightarrow> 'a Tw2GeometryRes" where
  "pull_dirty force res =
     (if \<not> boundsDirty res \<and> \<not> force
      then (if list_ex mesh_boundsDirty (meshes res) then res\<lparr>boundsDirty := True\<rparr> else res)
      else res)"

text \<open>The body of the second \<open>if\<close>: the recomputation itself.\<close>

definition recompute_bounds ::
  "'a bounds_lib \<Rightarrow> bool \<Rightarrow> 'a Tw2GeometryRes \<Rightarrow> 'a Tw2GeometryRes" where
  "recompute_bounds lib force res =
     (let (ms, box) = rebuild_meshes lib force (meshes res) (bounds_empty lib);
          (pos, radius) = bounds_toPositionRadius lib box
      in res\<lparr>meshes := ms, minBounds := fst box, maxBounds := snd box,
              boundsSpherePosition := pos, boundsSphereRadius := radius,
              boundsDirty := False\<rparr>)"

definition RebuildBounds ::
  "'a bounds_lib \<Rightarrow> bool \<Rightarrow> 'a Tw2GeometryRes \<Rightarrow> 'a Tw2GeometryRes" where
  "RebuildBounds lib force res =
     (let res1 = pull_dirty force res
      in if boundsDirty res1 \<or> force then recompute_bounds lib force res1 else res1)"

text \<open>
  Modelled from the spec: \<open>RebuildBounds\<close> of \<open>Tw2GeometryMesh\<close> is not among the
  sources. The spec has the bounds engine compute the box of a mesh from its area data,
  each area carrying a bounding box, and describes the bounds as a cached value with a
  staleness flag that is recomputed when stale or forced. So the mesh, when its flag is
  set or \<open>force\<close> is given, unites the boxes of its areas from the empty-bounds sentinel
  on and clears its flag, and otherwise stays as it is. The area record here keeps the
  fields the resource reads, so the box of an area is given by a function.
\<close>

definition Tw2GeometryMesh_RebuildBounds ::
  "'a bounds_lib \<Rightarrow> (Tw2GeometryMeshArea \<Rightarrow> 'a vec3 \<times> 'a vec3) \<Rightarrow> bool \<Rightarrow>
   'a Tw2GeometryMesh \<Rightarrow> 'a Tw2GeometryMesh" where
  "Tw2GeometryMesh_RebuildBounds lib area_box force mesh =
     (if mesh_boundsDirty mesh \<or> force
      then (let box = foldl (\<lambda>box area. bounds_union lib box (area_box area))
                        (bounds_empty lib) (areas mesh)
            in mesh\<lparr>mesh_minBounds := fst box, mesh_maxBounds := snd box,
                    mesh_boundsDirty := False\<rparr>)
      else mesh)"

text \<open>The library whose mesh method is the one above.\<close>

definition with_mesh_bounds ::
  "'a bounds_lib \<Rightarrow> (Tw2GeometryMeshArea \<Rightarrow> 'a vec3 \<times> 'a vec3) \<Rightarrow> 'a bounds_lib" where
  "with_mesh_bounds lib area_box =
     lib\<lparr>mesh_RebuildBounds := Tw2GeometryMesh_RebuildBounds lib area_box\<rparr>"

text \<open>
  The bounds that reflect a list of meshes: the union of their boxes, starting from the
  empty-bounds sentinel.
\<close>

definition bounds_of_meshes :: "'a bounds_lib \<Rightarrow> 'a Tw2GeometryMesh list \<Rightarrow> 'a vec3 \<times> 'a vec3" where
  "bounds_of_meshes lib ms =
     foldl (\<lambda>box m. bounds_union lib box (mesh_minBounds m, mesh_maxBounds m))
       (bounds_empty lib) ms"

section \<open>Clear\<close>

text \<open>
  \<open>Clear\<close> calls \<open>Clear\<close> on every mesh and then empties the three arrays, so the cleared
  meshes are no longer part of the resource; the bounds are set to zero. No other field
  is assigned.
\<close>

definition Clear :: "('a::zero) Tw2GeometryRes \<Rightarrow> 'a Tw2GeometryRes" where
  "Clear res =
     res\<lparr>meshes := [], models := [], animations := [],
         minBounds := (0, 0, 0), maxBounds := (0, 0, 0),
         boundsSpherePosition := (0, 0, 0), boundsSphereRadius := 0\<rparr>"

text \<open>\<open>xs[i]\<close> of JavaScript: \<open>undefined\<close> outside the array.\<close>

fun nth_opt :: "'x list \<Rightarrow> nat \<Rightarrow> 'x option" where
  "nth_opt [] i = None"
| "nth_opt (x # xs) 0 = Some x"
| "nth_opt (x # xs) (Suc i) = nth_opt xs i"

text \<open>
  \<open>xs[i] = v\<close> of JavaScript for an index up to the length of the array: it overwrites
  or appends. The loops that use it count \<open>i\<close> up from 0, so \<open>i\<close> never passes the
  length and no hole is made.
\<close>

definition js_set :: "'x list \<Rightarrow> nat \<Rightarrow> 'x \<Rightarrow> 'x list" where
  "js_set xs i v = (if i < length xs then xs[i := v] else xs @ [v])"

section \<open>Prepare\<close>

text \<open>
  A reader of the registry either builds mesh descriptors (\<open>byMesh\<close>) or prepares the
  resource itself. Readers, the mesh methods \<open>RecalculateAreaBounds\<close> and
  \<open>ClearSystemMirrorIfNotRequired\<close>, the constructors of mesh and model and the mirror
  policy of the resource manager are parameters. A reader may throw.
\<close>

record 'a mesh_descriptor =
  d_bufferData :: "'a list"
  d_indexData :: "nat list"
  d_BYTES_PER_ELEMENT :: nat
  d_declaration :: Tw2VertexDeclaration
  d_areas :: "Tw2GeometryMeshArea list"
  d_name :: "string option"

record ('a, 'd, 'o) geometry_reader =
  byMesh :: bool
  construct :: "'d \<Rightarrow> error + 'a mesh_descriptor list"
  reader_Prepare :: "'d \<Rightarrow> 'a Tw2GeometryRes \<Rightarrow> 'o \<Rightarrow> error + 'a Tw2GeometryRes"

record ('a, 'd, 'o) loader_lib =
  readers :: "string \<Rightarrow> ('a, 'd, 'o) geometry_reader option"
  new_mesh :: "'a Tw2GeometryMesh"
  new_model :: "'a Tw2GeometryModel"
  mesh_RecalculateAreaBounds :: "'a list \<Rightarrow> nat list \<Rightarrow> 'a Tw2GeometryMesh \<Rightarrow> 'a Tw2GeometryMesh"
  mesh_ClearSystemMirrorIfNotRequired :: "'a Tw2GeometryMesh \<Rightarrow> 'a Tw2GeometryMesh"
  IsSystemMirrorEnabled :: bool

text \<open>The device hands out buffer handles and records the calls made to it.\<close>

record device =
  next_buffer :: nat
  gl_calls :: "event list"

definition createBuffer :: "device \<Rightarrow> nat \<times> device" where
  "createBuffer d = (next_buffer d, d\<lparr>next_buffer := next_buffer d + 1\<rparr>)"

definition gl_call :: "event \<Rightarrow> device \<Rightarrow> device" where
  "gl_call ev d = d\<lparr>gl_calls := gl_calls d @ [ev]\<rparr>"

text \<open>The decimal numeral of an index, as a template literal prints it.\<close>

definition digit_char :: "nat \<Rightarrow> char" where
  "digit_char d = char_of (d + 48)"

function decimal :: "nat \<Rightarrow> string" where
  "decimal n = (if n div 10 = 0 then [digit_char n] else decimal (n div 10) @ [digit_char (n mod 10)])"
  by pat_completeness auto
termination
  by (relation "measure id") auto

declare decimal.simps [simp del]

definition js_div :: "nat \<Rightarrow> real \<Rightarrow> jsnum" where
  "js_div a b =
     (if b = 0 then (if a = 0 then NaN else Infinity) else Finite (real a / b))"

text \<open>One round of the loop of \<open>PrepareFromMeshes\<close>: mesh \<open>i\<close> is built and stored.\<close>

definition prepare_mesh ::
  "('a, 'd, 'o) loader_lib \<Rightarrow> string \<Rightarrow> nat \<Rightarrow> 'a mesh_descriptor \<Rightarrow> device \<Rightarrow>
   'a Tw2GeometryMesh \<times> device" where
  "prepare_mesh ll p i desc dev =
     (let name = (case d_name desc of None \<Rightarrow> p @ ''_model_'' @ decimal i | Some n \<Rightarrow> n);
          (vb, dev1) = createBuffer dev;
          dev2 = gl_call (BufferData ARRAY_BUFFER (length (d_bufferData desc)))
                   (gl_call (BindBuffer ARRAY_BUFFER (Some vb)) dev1);
          (ib, dev3) = createBuffer dev2;
          dev4 = gl_call (BufferData ELEMENT_ARRAY_BUFFER (length (d_indexData desc)))
                   (gl_call (BindBuffer ELEMENT_ARRAY_BUFFER (Some ib)) dev3);
          mesh = (new_mesh ll)
            \<lparr>mesh_name := name, mesh_declaration := d_declaration desc,
             bufferLength := length (d_bufferData desc), buffer := Some vb,
             indexes := Some ib,
             indexType := (if d_BYTES_PER_ELEMENT desc = 2 then UNSIGNED_SHORT else UNSIGNED_INT),
             areas := areas (new_mesh ll) @ d_areas desc\<rparr>;
          mesh' = mesh_RecalculateAreaBounds ll (d_bufferData desc) (d_indexData desc) mesh
      in (mesh'\<lparr>count_areas := length (d_areas desc),
                count_faces := js_div (length (d_indexData desc)) 3,
                count_vertices := js_div (length (d_bufferData desc))
                                    (real (stride (mesh_declaration mesh')) / 4),
                bufferData := Some (d_bufferData desc),
                indexData := Some (d_indexData desc)\<rparr>, dev4))"

fun PrepareFromMeshes_loop ::
  "('a, 'd, 'o) loader_lib \<Rightarrow> nat \<Rightarrow> 'a mesh_descriptor list \<Rightarrow> device \<times> 'a Tw2GeometryRes \<Rightarrow>
   device \<times> 'a Tw2GeometryRes" where
  "PrepareFromMeshes_loop ll i [] (dev, res) = (dev, res)"
| "PrepareFromMeshes_loop ll i (desc # descs) (dev, res) =
     (let (mesh, dev') = prepare_mesh ll (path res) i desc dev
      in PrepareFromMeshes_loop ll (i + 1) descs
           (dev', res\<lparr>meshes := js_set (meshes res) i mesh,
                      models := js_set (models res) i (new_model ll)\<rparr>))"

definition PrepareFromMeshes ::
  "('a, 'd, 'o) loader_lib \<Rightarrow> 'a mesh_descriptor list \<Rightarrow> device \<times> 'a Tw2GeometryRes \<Rightarrow>
   device \<times> 'a Tw2GeometryRes" where
  "PrepareFromMeshes ll descs st = PrepareFromMeshes_loop ll 0 descs st"

definition ClearSystemMirrorIfNotRequired ::
  "('a, 'd, 'o) loader_lib \<Rightarrow> 'a Tw2GeometryRes \<Rightarrow> 'a Tw2GeometryRes" where
  "ClearSystemMirrorIfNotRequired ll res =
     (if \<not> requiresSystemMirror res \<and> \<not> isCustom res
      then res\<lparr>meshes := map (mesh_ClearSystemMirrorIfNotRequired ll) (meshes res)\<rparr>
      else res)"

text \<open>
  Modelled from the spec: \<open>OnPrepared\<close> belongs to the base class \<open>Tw2Resource\<close>, which
  is not among the sources; the spec has the resource become ready at the end of a
  preparation, and that is all the model lets it do.
\<close>

definition OnPrepared :: "'a Tw2GeometryRes \<Rightarrow> 'a Tw2GeometryRes" where
  "OnPrepared res = res\<lparr>isGood := True\<rparr>"

text \<open>
  The part of \<open>Prepare\<close> after the call of \<open>Clear\<close>. A thrown error is the result
  \<open>Inl\<close>; the state a throw leaves behind is not part of the result.
\<close>

definition prepare_cleared ::
  "'a bounds_lib \<Rightarrow> ('a, 'd, 'o) loader_lib \<Rightarrow> 'd \<Rightarrow> 'o \<Rightarrow> device \<times> 'a Tw2GeometryRes \<Rightarrow>
   error + device \<times> 'a Tw2GeometryRes" where
  "prepare_cleared lib ll dat options st =
     (let (dev, res) = st in
      case (case extension res of None \<Rightarrow> None | Some ext \<Rightarrow> readers ll ext) of
        None \<Rightarrow> Inl (ErrResourceFormatUnsupported (extension res))
      | Some Reader \<Rightarrow>
          (case (if byMesh Reader
                 then (case construct Reader dat of
                         Inl e \<Rightarrow> Inl e
                       | Inr descs \<Rightarrow> Inr (PrepareFromMeshes ll descs (dev, res)))
                 else (case reader_Prepare Reader dat res options of
                         Inl e \<Rightarrow> Inl e
                       | Inr res' \<Rightarrow> Inr (dev, res'))) of
             Inl e \<Rightarrow> Inl e
           | Inr (dev', res1) \<Rightarrow>
               (let res2 = (RebuildBounds lib False res1)\<lparr>custom := None\<rparr>;
                    res3 = (if \<not> IsSystemMirrorEnabled ll
                            then ClearSystemMirrorIfNotRequired ll res2 else res2)
                in Inr (dev', OnPrepared res3))))"

definition Prepare ::
  "('a::zero) bounds_lib \<Rightarrow> ('a, 'd, 'o) loader_lib \<Rightarrow> 'd \<Rightarrow> 'o \<Rightarrow> device \<times> 'a Tw2GeometryRes \<Rightarrow>
   error + device \<times> 'a Tw2GeometryRes" where
  "Prepare lib ll dat options st = prepare_cleared lib ll dat options (fst st, Clear (snd st))"

section \<open>ReadVertexBuffer\<close>

text \<open>
  Modelled from the spec: the class \<open>Tw2BinaryReader\<close> is not among the sources. The
  spec's layout of the persisted data names what is read (\<open>u8\<close>, \<open>u32\<close>, signed and
  unsigned integers of 8, 16 and 32 bits, floats of 16 and 32 bits). The reader is a
  byte array with a cursor; a read takes the next bytes, least significant first, and
  moves the cursor past them; signed values are two's complement. What a read beyond the
  end of the data gives is stated nowhere: the model stops there with
  \<open>ErrReaderOutOfData\<close>, and the theorems are about data that is long enough.
\<close>

record Tw2BinaryReader =
  data :: "8 word list"
  cursor :: nat

fun le_value :: "nat list \<Rightarrow> nat" where
  "le_value [] = 0"
| "le_value (b # bs) = b + 256 * le_value bs"

definition read_unsigned :: "nat \<Rightarrow> Tw2BinaryReader \<Rightarrow> error + nat \<times> Tw2BinaryReader" where
  "read_unsigned k r =
     (if cursor r + k \<le> length (data r)
      then Inr (le_value (map unat (take k (drop (cursor r) (data r)))),
                r\<lparr>cursor := cursor r + k\<rparr>)
      else Inl ErrReaderOutOfData)"

definition to_signed :: "nat \<Rightarrow> nat \<Rightarrow> int" where
  "to_signed k v = (if 2 ^ (8 * k - 1) \<le> v then int v - 2 ^ (8 * k) else int v)"

definition read_signed :: "nat \<Rightarrow> Tw2BinaryReader \<Rightarrow> error + int \<times> Tw2BinaryReader" where
  "read_signed k r =
     (case read_unsigned k r of
        Inl e \<Rightarrow> Inl e
      | Inr (v, r') \<Rightarrow> Inr (to_signed k v, r'))"

definition ReadUInt8 :: "Tw2BinaryReader \<Rightarrow> error + nat \<times> Tw2BinaryReader" where
  "ReadUInt8 = read_unsigned 1"

definition ReadUInt16 :: "Tw2BinaryReader \<Rightarrow> error + nat \<times> Tw2BinaryReader" where
  "ReadUInt16 = read_unsigned 2"

definition ReadUInt32 :: "Tw2BinaryReader \<Rightarrow> error + nat \<times> Tw2BinaryReader" where
  "ReadUInt32 = read_unsigned 4"

definition ReadInt8 :: "Tw2BinaryReader \<Rightarrow> error + int \<times> Tw2BinaryReader" where
  "ReadInt8 = read_signed 1"

definition ReadInt16 :: "Tw2BinaryReader \<Rightarrow> error + int \<times> Tw2BinaryReader" where
  "ReadInt16 = read_signed 2"

definition ReadInt32 :: "Tw2BinaryReader \<Rightarrow> error + int \<times> Tw2BinaryReader" where
  "ReadInt32 = read_signed 4"

text \<open>
  An entry of the output \<open>Float32Array\<close>. A number that comes from an integer read is
  kept exactly (the rounding to 32 bits is not modelled); a float read from the data is
  kept as its bit pattern.
\<close>

datatype scalar = Num real | Float16Bits nat | Float32Bits nat

definition ReadFloat16 :: "Tw2BinaryReader \<Rightarrow> error + scalar \<times> Tw2BinaryReader" where
  "ReadFloat16 r =
     (case read_unsigned 2 r of Inl e \<Rightarrow> Inl e | Inr (v, r') \<Rightarrow> Inr (Float16Bits v, r'))"

definition ReadFloat32 :: "Tw2BinaryReader \<Rightarrow> error + scalar \<times> Tw2BinaryReader" where
  "ReadFloat32 r =
     (case read_unsigned 4 r of Inl e \<Rightarrow> Inl e | Inr (v, r') \<Rightarrow> Inr (Float32Bits v, r'))"

text \<open>The right-hand sides of \<open>buffer[index++] = ...\<close>: a read, possibly divided.\<close>

definition unsigned_over ::
  "(Tw2BinaryReader \<Rightarrow> error + nat \<times> Tw2BinaryReader) \<Rightarrow> real \<Rightarrow> Tw2BinaryReader \<Rightarrow>
   error + scalar \<times> Tw2BinaryReader" where
  "unsigned_over rd d r =
     (case rd r of Inl e \<Rightarrow> Inl e | Inr (v, r') \<Rightarrow> Inr (Num (real v / d), r'))"

definition signed_over ::
  "(Tw2BinaryReader \<Rightarrow> error + int \<times> Tw2BinaryReader) \<Rightarrow> real \<Rightarrow> Tw2BinaryReader \<Rightarrow>
   error + scalar \<times> Tw2BinaryReader" where
  "signed_over rd d r =
     (case rd r of Inl e \<Rightarrow> Inl e | Inr (v, r') \<Rightarrow> Inr (Num (real_of_int v / d), r'))"

text \<open>
  The decoding state: the output buffer, the write index and the reader. A write beyond
  the end of a typed array is ignored, as a list update beyond the end is.
\<close>

type_synonym decode_state = "scalar list \<times> nat \<times> Tw2BinaryReader"

text \<open>The loop \<open>for (i = 0; i < el.elements; ++i) buffer[index++] = ...\<close>.\<close>

fun read_scalars ::
  "(Tw2BinaryReader \<Rightarrow> error + scalar \<times> Tw2BinaryReader) \<Rightarrow> nat \<Rightarrow> decode_state \<Rightarrow>
   error + decode_state" where
  "read_scalars rd 0 st = Inr st"
| "read_scalars rd (Suc n) (buf, index, reader) =
     (case rd reader of
        Inl e \<Rightarrow> Inl e
      | Inr (v, reader') \<Rightarrow> read_scalars rd n (buf[index := v], index + 1, reader'))"

text \<open>The \<open>switch\<close> on the low nibble of the file type, for one element of one vertex.\<close>

definition read_element :: "string \<Rightarrow> Tw2VertexElement \<Rightarrow> decode_state \<Rightarrow> error + decode_state" where
  "read_element p el st =
     (let kind = fileType el AND 0xf;
          normalized = (fileType el AND 0x10 \<noteq> 0);
          n = elements el
      in if kind = 0 then
           (if normalized then read_scalars (signed_over ReadInt8 127) n st
            else read_scalars (signed_over ReadInt8 1) n st)
         else if kind = 1 then
           (if normalized then read_scalars (signed_over ReadInt8 32767) n st
            else read_scalars (signed_over ReadInt16 1) n st)
         else if kind = 2 then read_scalars (signed_over ReadInt32 1) n st
         else if kind = 3 then read_scalars ReadFloat16 n st
         else if kind = 4 then read_scalars ReadFloat32 n st
         else if kind = 8 then
           (if normalized then read_scalars (unsigned_over ReadUInt8 255) n st
            else read_scalars (unsigned_over ReadUInt8 1) n st)
         else if kind = 9 then
           (if normalized then read_scalars (unsigned_over ReadUInt8 65535) n st
            else read_scalars (unsigned_over ReadUInt16 1) n st)
         else if kind = 10 then read_scalars (unsigned_over ReadUInt32 1) n st
         else Inl (ErrGeometryFileType p (fileType el AND 0xf)))"

text \<open>The loop over the elements of the declaration, for one vertex.\<close>

fun read_vertex :: "string \<Rightarrow> Tw2VertexElement list \<Rightarrow> decode_state \<Rightarrow> error + decode_state" where
  "read_vertex p [] st = Inr st"
| "read_vertex p (el # els) st =
     (case read_element p el st of
        Inl e \<Rightarrow> Inl e
      | Inr st' \<Rightarrow> read_vertex p els st')"

text \<open>The loop over the vertices.\<close>

fun read_vertices ::
  "string \<Rightarrow> Tw2VertexElement list \<Rightarrow> nat \<Rightarrow> decode_state \<Rightarrow> error + decode_state" where
  "read_vertices p els 0 st = Inr st"
| "read_vertices p els (Suc n) st =
     (case read_vertex p els st of
        Inl e \<Rightarrow> Inl e
      | Inr st' \<Rightarrow> read_vertices p els n st')"

text \<open>
  The first loop: \<open>n\<close> more elements are read and stored from position \<open>declIx\<close> on,
  while \<open>vertexSize\<close> adds up their component counts.
\<close>

fun read_declaration ::
  "nat \<Rightarrow> nat \<Rightarrow> Tw2VertexElement list \<times> nat \<times> Tw2BinaryReader \<Rightarrow>
   error + Tw2VertexElement list \<times> nat \<times> Tw2BinaryReader" where
  "read_declaration 0 declIx st = Inr st"
| "read_declaration (Suc n) declIx (els, vertexSize, reader) =
     (case ReadUInt8 reader of
        Inl e \<Rightarrow> Inl e
      | Inr (u, r1) \<Rightarrow>
     (case ReadUInt8 r1 of
        Inl e \<Rightarrow> Inl e
      | Inr (ui, r2) \<Rightarrow>
     (case ReadUInt8 r2 of
        Inl e \<Rightarrow> Inl e
      | Inr (ft, r3) \<Rightarrow>
          (let element = \<lparr>usage = u, usageIndex = ui, fileType = ft,
                          elements = drop_bit 5 ft + 1, offset = vertexSize * 4\<rparr>
           in read_declaration n (declIx + 1)
                (js_set els declIx element, vertexSize + elements element, r3)))))"

text \<open>
  The part of \<open>ReadVertexBuffer\<close> up to the vertex count: the number of elements, the
  declaration with its stride, the vertex size and the vertex count.
\<close>

definition read_header ::
  "Tw2BinaryReader \<Rightarrow> Tw2VertexDeclaration \<Rightarrow>
   error + nat \<times> Tw2VertexDeclaration \<times> nat \<times> nat \<times> Tw2BinaryReader" where
  "read_header reader decl =
     (case ReadUInt8 reader of
        Inl e \<Rightarrow> Inl e
      | Inr (declCount, r1) \<Rightarrow>
     (case read_declaration declCount 0 (decl_elements decl, 0, r1) of
        Inl e \<Rightarrow> Inl e
      | Inr (els, vertexSize, r2) \<Rightarrow>
     (case ReadUInt32 r2 of
        Inl e \<Rightarrow> Inl e
      | Inr (vertexCount, r3) \<Rightarrow>
          Inr (declCount, decl\<lparr>decl_elements := els, stride := vertexSize * 4\<rparr>, vertexSize,
               vertexCount, r3))))"

text \<open>
  \<open>ReadVertexBuffer\<close> returns the buffer, or \<open>null\<close> for no vertices; the declaration
  and the reader it has changed are returned with it.
\<close>

definition ReadVertexBuffer ::
  "Tw2BinaryReader \<Rightarrow> Tw2VertexDeclaration \<Rightarrow> string \<Rightarrow>
   error + scalar list option \<times> Tw2VertexDeclaration \<times> Tw2BinaryReader" where
  "ReadVertexBuffer reader decl p =
     (case read_header reader decl of
        Inl e \<Rightarrow> Inl e
      | Inr (declCount, decl', vertexSize, vertexCount, r) \<Rightarrow>
          if vertexCount = 0 then Inr (None, decl', r)
          else
            (case read_vertices p (take declCount (decl_elements decl')) vertexCount
                    (replicate (vertexSize * vertexCount) (Num 0), 0, r) of
               Inl e \<Rightarrow> Inl e
             | Inr (buf, index, r') \<Rightarrow> Inr (Some buf, decl', r')))"

text \<open>
  What the claims speak of: the file types the \<open>switch\<close> has a case for, the number of
  bytes one encoded scalar of an element takes, the scalars and bytes of one vertex, the
  file type that governs each slot of a vertex, and the ranges of normalized values (as
  the spec words them, and as the divisions give them).
\<close>

definition supported :: "nat \<Rightarrow> bool" where
  "supported ft = (ft AND 0xf \<in> set [0, 1, 2, 3, 4, 8, 9, 10])"

definition scalar_bytes :: "nat \<Rightarrow> nat" where
  "scalar_bytes ft =
     (let kind = ft AND 0xf; normalized = (ft AND 0x10 \<noteq> 0)
      in if kind = 0 \<or> kind = 8 then 1
         else if kind = 1 \<or> kind = 9 then (if normalized then 1 else 2)
         else if kind = 3 then 2
         else 4)"

definition vertex_size :: "Tw2VertexElement list \<Rightarrow> nat" where
  "vertex_size els = sum_list (map elements els)"

definition vertex_bytes :: "Tw2VertexElement list \<Rightarrow> nat" where
  "vertex_bytes els = sum_list (map (\<lambda>el. elements el * scalar_bytes (fileType el)) els)"

definition slot_types :: "Tw2VertexElement list \<Rightarrow> nat list" where
  "slot_types els = concat (map (\<lambda>el. replicate (elements el) (fileType el)) els)"

definition is_normalized :: "nat \<Rightarrow> bool" where
  "is_normalized ft = (ft AND 0x10 \<noteq> 0 \<and> ft AND 0xf \<in> set [0, 1, 8, 9])"

definition is_signed :: "nat \<Rightarrow> bool" where
  "is_signed ft = (ft AND 0xf \<in> set [0, 1])"

definition num_between :: "real \<Rightarrow> real \<Rightarrow> scalar \<Rightarrow> bool" where
  "num_between lo hi v = (case v of Num x \<Rightarrow> lo \<le> x \<and> x \<le> hi | _ \<Rightarrow> False)"

definition spec_range :: "nat \<Rightarrow> scalar \<Rightarrow> bool" where
  "spec_range ft v =
     (if is_normalized ft then (if is_signed ft then num_between (- 1) 1 v else num_between 0 1 v)
      else True)"

definition code_range :: "nat \<Rightarrow> scalar \<Rightarrow> bool" where
  "code_range ft v =
     (if is_normalized ft
      then (if is_signed ft then num_between (- 128 / 127) 1 v else num_between 0 1 v)
      else True)"

text \<open>
  The read and division that the \<open>switch\<close> selects for a supported file type; the
  loop of each case runs it once per component.
\<close>

definition element_reader :: "nat \<Rightarrow> Tw2BinaryReader \<Rightarrow> error + scalar \<times> Tw2BinaryReader" where
  "element_reader ft =
     (let kind = ft AND 0xf; normalized = (ft AND 0x10 \<noteq> 0)
      in if kind = 0 then signed_over ReadInt8 (if normalized then 127 else 1)
         else if kind = 1 then
           (if normalized then signed_over ReadInt8 32767 else signed_over ReadInt16 1)
         else if kind = 2 then signed_over ReadInt32 1
         else if kind = 3 then ReadFloat16
         else if kind = 4 then ReadFloat32
         else if kind = 8 then unsigned_over ReadUInt8 (if normalized then 255 else 1)
         else if kind = 9 then
           (if normalized then unsigned_over ReadUInt8 65535 else unsigned_over ReadUInt16 1)
         else unsigned_over ReadUInt32 1)"

section \<open>BindMeshToModel\<close>

text \<open>
  Modelled from the spec: \<open>FindBoneByName\<close> of \<open>Tw2GeometryModel\<close> and
  \<open>FindBoneBoundsByName\<close> of \<open>Tw2GeometryMesh\<close> are not among the sources. The spec
  gives the first as \<open>FindBoneByName(name) -> Bone|null\<close> and has the second look the
  bounding box up by name in the mesh's own table of bone bounds. A bone is returned as
  its position in the skeleton.
\<close>

fun find_bone :: "'a Tw2GeometryBone list \<Rightarrow> string \<Rightarrow> nat \<Rightarrow> nat option" where
  "find_bone [] name b = None"
| "find_bone (bone # bones) name b =
     (if bone_name bone = name then Some b else find_bone bones name (b + 1))"

definition FindBoneByName :: "'a Tw2GeometryModel \<Rightarrow> string \<Rightarrow> nat option" where
  "FindBoneByName model name =
     (case skeleton model of None \<Rightarrow> None | Some bones \<Rightarrow> find_bone bones name 0)"

definition FindBoneBoundsByName ::
  "'a Tw2GeometryMesh \<Rightarrow> string \<Rightarrow> ('a vec3 \<times> 'a vec3) option" where
  "FindBoneBoundsByName mesh name = map_of (boneBounds mesh) name"

definition set_bone_box ::
  "'a Tw2GeometryModel \<Rightarrow> nat \<Rightarrow> ('a vec3 \<times> 'a vec3) option \<Rightarrow> 'a Tw2GeometryModel" where
  "set_bone_box model b box =
     model\<lparr>skeleton := map_option (\<lambda>bones. bones[b := (bones ! b)\<lparr>boundingBox := box\<rparr>])
                            (skeleton model)\<rparr>"

text \<open>
  The loop over \<open>mesh.boneBindings\<close>. The state is the binding under construction and
  the model, whose bones receive their bounding boxes on the way. A throw carries the
  model as it is at that moment.
\<close>

fun bind_bones ::
  "string \<Rightarrow> 'a Tw2GeometryMesh \<Rightarrow> string list \<Rightarrow>
   'a Tw2GeometryMeshBinding \<times> 'a Tw2GeometryModel \<Rightarrow>
   error \<times> 'a Tw2GeometryModel + 'a Tw2GeometryMeshBinding \<times> 'a Tw2GeometryModel" where
  "bind_bones p mesh [] (binding, model) = Inr (binding, model)"
| "bind_bones p mesh (name # names) (binding, model) =
     (case FindBoneByName model name of
        None \<Rightarrow>
          Inl (ErrGeometryMeshBoneNameInvalid p (mesh_name (binding_mesh binding)) name
                 (model_name model), model)
      | Some bone \<Rightarrow>
          bind_bones p mesh names
            (binding\<lparr>binding_bones := binding_bones binding @ [bone]\<rparr>,
             set_bone_box model bone (FindBoneBoundsByName mesh name)))"

definition BindMeshToModel ::
  "'a Tw2GeometryMesh \<Rightarrow> 'a Tw2GeometryModel \<Rightarrow> 'a Tw2GeometryRes \<Rightarrow>
   error \<times> 'a Tw2GeometryModel + 'a Tw2GeometryModel" where
  "BindMeshToModel mesh model res =
     (let binding = \<lparr>binding_mesh = mesh, binding_bones = []\<rparr>
      in case bind_bones (path res) mesh (boneBindings (binding_mesh binding)) (binding, model) of
           Inl thrown \<Rightarrow> Inl thrown
         | Inr (binding', model') \<Rightarrow>
             Inr (model'\<lparr>meshBindings := meshBindings model' @ [binding']\<rparr>))"

section \<open>Intersect\<close>

text \<open>
  The ray caster and the intersection routine of the mesh are collaborators: the ray
  answers the bounds test and supplies the comparison for the final sort, the mesh
  returns its hits. The accumulator and the cache are only handed through to the mesh and
  are left out. \<open>Array.prototype.sort\<close> with a comparison function is a stable sort;
  it is written as an insertion sort.
\<close>

record intersection =
  distance :: real
  hit_geometryResource :: "string option"
  hit_meshIndex :: "nat option"
  hit_mesh :: "string option"

record ('a, 'w) Tw2RayCaster =
  IntersectBounds :: "'a vec3 \<Rightarrow> 'a vec3 \<Rightarrow> 'w \<Rightarrow> bool"
  sortFunction :: "intersection \<Rightarrow> intersection \<Rightarrow> real"

fun insert_sorted :: "('x \<Rightarrow> 'x \<Rightarrow> real) \<Rightarrow> 'x \<Rightarrow> 'x list \<Rightarrow> 'x list" where
  "insert_sorted cmp x [] = [x]"
| "insert_sorted cmp x (y # ys) =
     (if cmp x y \<le> 0 then x # y # ys else y # insert_sorted cmp x ys)"

fun js_sort :: "('x \<Rightarrow> 'x \<Rightarrow> real) \<Rightarrow> 'x list \<Rightarrow> 'x list" where
  "js_sort cmp [] = []"
| "js_sort cmp (x # xs) = insert_sorted cmp x (js_sort cmp xs)"

definition Intersect ::
  "'a bounds_lib \<Rightarrow> ('a Tw2GeometryMesh \<Rightarrow> 'w \<Rightarrow> intersection list) \<Rightarrow> ('a, 'w) Tw2RayCaster \<Rightarrow>
   'w \<Rightarrow> nat \<Rightarrow> 'a Tw2GeometryRes \<Rightarrow> intersection list \<times> 'a Tw2GeometryRes" where
  "Intersect lib mesh_Intersect ray worldTransform meshIndex res =
     (let res' = RebuildBounds lib False res
      in if \<not> IntersectBounds ray (minBounds res') (maxBounds res') worldTransform
         then ([], res')
         else
           (let internalIntersects =
                  (case nth_opt (meshes res') meshIndex of
                     None \<Rightarrow> []
                   | Some mesh \<Rightarrow>
                       map (\<lambda>hit. hit\<lparr>hit_geometryResource := Some (path res'),
                                      hit_meshIndex := Some meshIndex,
                                      hit_mesh := Some (mesh_name mesh)\<rparr>)
                         (mesh_Intersect mesh worldTransform))
            in (js_sort (sortFunction ray) internalIntersects, res')))"

section \<open>Rendering of mesh areas\<close>

text \<open>
  The device, the effect and the vertex declaration's binding methods are collaborators.
  What the resource does to them is recorded as the sequence of calls it makes; what
  they answer is a parameter: the pass count and the pass inputs of the effect, and
  whether \<open>SetDeclaration\<close> accepts a pass input for a declaration.
\<close>

record Tw2Effect =
  defaultTechnique :: string
  GetPassCount :: "string \<Rightarrow> nat"
  GetPassInput :: "string \<Rightarrow> nat \<Rightarrow> Tw2PassInput"

type_synonym set_declaration = "Tw2VertexDeclaration \<Rightarrow> Tw2PassInput \<Rightarrow> nat \<Rightarrow> bool"

text \<open>
  The inner \<open>while\<close> loop of the three render methods. It starts from a run
  \<open>(areaStart, areaCount)\<close> at position \<open>i\<close> and returns either the index of a
  missing area or the position and the count the run has reached.
\<close>

function merge_areas ::
  "Tw2GeometryMeshArea list \<Rightarrow> nat \<Rightarrow> nat \<Rightarrow> nat \<Rightarrow> nat \<Rightarrow> nat \<Rightarrow> nat + (nat \<times> nat)" where
  "merge_areas as start count i areaStart areaCount =
     (if i + 1 < count then
        (case nth_opt as (i + 1 + start) of
           None \<Rightarrow> Inl (i + 1 + start)
         | Some area \<Rightarrow>
             if area_start area \<noteq> areaStart + areaCount * 2 then Inr (i, areaCount)
             else merge_areas as start count (i + 1) areaStart (areaCount + area_count area))
      else Inr (i, areaCount))"
  by pat_completeness auto
termination
  by (relation "measure (\<lambda>(as, start, count, i, areaStart, areaCount). count - i)") auto

declare merge_areas.simps [simp del]

lemma merge_areas_position:
  "merge_areas as start count i areaStart areaCount = Inr (i', c) \<Longrightarrow> i \<le> i'"
proof (induction as start count i areaStart areaCount rule: merge_areas.induct)
  case (1 as start count i areaStart areaCount)
  show ?case
  proof (cases "i + 1 < count")
    case False
    with "1.prems" show ?thesis by (simp add: merge_areas.simps)
  next
    case inside: True
    show ?thesis
    proof (cases "nth_opt as (i + 1 + start)")
      case None
      with inside "1.prems" show ?thesis by (simp add: merge_areas.simps)
    next
      case (Some area)
      show ?thesis
      proof (cases "area_start area \<noteq> areaStart + areaCount * 2")
        case True
        with inside Some "1.prems" show ?thesis by (simp add: merge_areas.simps)
      next
        case False
        with inside Some "1.prems"
        have "merge_areas as start count (i + 1) areaStart (areaCount + area_count area) = Inr (i', c)"
          by (simp add: merge_areas.simps [of as start count i])
        with "1.IH" [OF inside Some False] show ?thesis by simp
      qed
    qed
  qed
qed

text \<open>
  The \<open>for\<close> loop over the requested areas. The result is the draw calls it makes, each
  as the pair \<open>(areaCount, areaStart)\<close> it passes to the device, and, when an area is
  missing, the index of that area.
\<close>

function draw_areas ::
  "Tw2GeometryMeshArea list \<Rightarrow> nat \<Rightarrow> nat \<Rightarrow> nat \<Rightarrow> (nat \<times> nat) list \<times> nat option" where
  "draw_areas as start count i =
     (if i < count then
        (if i + start < length as then
           (let area = as ! (i + start) in
            case merge_areas as start count i (area_start area) (area_count area) of
              Inl missing \<Rightarrow> ([], Some missing)
            | Inr (i', areaCount) \<Rightarrow>
                (let (runs, r) = draw_areas as start count (i' + 1)
                 in ((areaCount, area_start area) # runs, r)))
         else draw_areas as start count (i + 1))
      else ([], None))"
  by pat_completeness auto
termination
  by (relation "measure (\<lambda>(as, start, count, i). count - i)")
     (auto dest: merge_areas_position)

declare draw_areas.simps [simp del]

text \<open>
  The loop over the passes of \<open>RenderAreas\<close> and \<open>RenderLines\<close>, which differ in the
  primitive only. The result is the calls made and the value returned.
\<close>

fun render_passes ::
  "set_declaration \<Rightarrow> string \<Rightarrow> 'a Tw2GeometryMesh \<Rightarrow> primitive_mode \<Rightarrow> Tw2Effect \<Rightarrow> string \<Rightarrow>
   nat \<Rightarrow> nat \<Rightarrow> nat list \<Rightarrow> event list \<times> bool" where
  "render_passes sd p mesh mode effect technique start count [] = ([], True)"
| "render_passes sd p mesh mode effect technique start count (pass # passes) =
     (let passInput = GetPassInput effect technique pass;
          decl = mesh_declaration mesh
      in if \<not> sd decl passInput (stride decl)
         then ([ApplyPass technique pass, SetDeclaration decl passInput (stride decl),
                OnError (ErrGeometryMeshEffectBinding p pass passInput (stride decl))], False)
         else
           (let setup = [ApplyPass technique pass, SetDeclaration decl passInput (stride decl),
                         ApplyShadowState];
                draw = (\<lambda>(areaCount, areaStart).
                          DrawElements mode areaCount (indexType mesh) areaStart)
            in case draw_areas (areas mesh) start count 0 of
                 (runs, Some missing) \<Rightarrow>
                   (setup @ map draw runs @ [OnError (ErrGeometryMeshAreaMissing p missing)], False)
               | (runs, None) \<Rightarrow>
                   (let (evs', r) = render_passes sd p mesh mode effect technique start count passes
                    in (setup @ map draw runs @ evs', r))))"

definition technique_or_default :: "Tw2Effect \<Rightarrow> string option \<Rightarrow> string" where
  "technique_or_default effect tech =
     (case tech of None \<Rightarrow> defaultTechnique effect | Some t \<Rightarrow> t)"

definition RenderAreas ::
  "set_declaration \<Rightarrow> 'a Tw2GeometryRes \<Rightarrow> nat \<Rightarrow> nat \<Rightarrow> nat \<Rightarrow> Tw2Effect \<Rightarrow> string option \<Rightarrow>
   event list \<times> (error + bool)" where
  "RenderAreas sd res meshIx start count effect tech =
     (let technique = technique_or_default effect tech;
          passCount = GetPassCount effect technique
      in if passCount = 0 \<or> \<not> isGood res \<or> meshIx \<ge> length (meshes res)
         then ([KeepAlive], Inr False)
         else
           (case (case nth_opt (meshes res) meshIx of
                    Some m \<Rightarrow> Some m
                  | None \<Rightarrow> nth_opt (meshes res) 0) of
              None \<Rightarrow> ([KeepAlive], Inl TypeError)
            | Some mesh \<Rightarrow>
                (let (evs, r) = render_passes sd (path res) mesh TRIANGLES effect technique
                                  start count [0..<passCount]
                 in ([KeepAlive, BindBuffer ARRAY_BUFFER (buffer mesh),
                      BindBuffer ELEMENT_ARRAY_BUFFER (indexes mesh)] @ evs, Inr r))))"

definition RenderLines ::
  "set_declaration \<Rightarrow> 'a Tw2GeometryRes \<Rightarrow> nat \<Rightarrow> nat \<Rightarrow> nat \<Rightarrow> Tw2Effect \<Rightarrow> string option \<Rightarrow>
   event list \<times> (error + bool)" where
  "RenderLines sd res meshIx start count effect tech =
     (let technique = technique_or_default effect tech;
          passCount = GetPassCount effect technique
      in if passCount = 0 \<or> \<not> isGood res \<or> meshIx \<ge> length (meshes res)
         then ([KeepAlive], Inr False)
         else
           (case nth_opt (meshes res) meshIx of
              None \<Rightarrow> ([KeepAlive], Inl TypeError)
            | Some mesh \<Rightarrow>
                (let (evs, r) = render_passes sd (path res) mesh LINES effect technique
                                  start count [0..<passCount]
                 in ([KeepAlive, BindBuffer ARRAY_BUFFER (buffer mesh),
                      BindBuffer ELEMENT_ARRAY_BUFFER (indexes mesh)] @ evs, Inr r))))"

text \<open>
  The instanced path: a pass whose input has no elements is skipped, the declarations
  are bound partially (no failure is looked at), and the instance divisors are reset
  after the areas of the pass.
\<close>

fun render_passes_instanced ::
  "string \<Rightarrow> 'a Tw2GeometryMesh \<Rightarrow> Tw2Effect \<Rightarrow> string \<Rightarrow> nat option \<Rightarrow>
   Tw2VertexDeclaration \<Rightarrow> nat \<Rightarrow> nat \<Rightarrow> nat \<Rightarrow> nat \<Rightarrow> nat list \<Rightarrow> event list \<times> bool" where
  "render_passes_instanced p mesh effect technique instanceVB instanceDecl instanceStride
     instanceCount start count [] = ([], True)"
| "render_passes_instanced p mesh effect technique instanceVB instanceDecl instanceStride
     instanceCount start count (pass # passes) =
     (let passInput = GetPassInput effect technique pass;
          decl = mesh_declaration mesh
      in if length (input_elements passInput) = 0
         then
           (let (evs', r) = render_passes_instanced p mesh effect technique instanceVB
                              instanceDecl instanceStride instanceCount start count passes
            in (ApplyPass technique pass # evs', r))
         else
           (let setup =
                  [ApplyPass technique pass, BindBuffer ARRAY_BUFFER (buffer mesh),
                   SetPartialDeclaration decl passInput (stride decl) None,
                   BindBuffer ARRAY_BUFFER instanceVB,
                   SetPartialDeclaration instanceDecl passInput instanceStride (Some (0, 1)),
                   ApplyShadowState];
                draw = (\<lambda>(areaCount, areaStart).
                          DrawElementsInstanced TRIANGLES areaCount (indexType mesh) areaStart
                            instanceCount)
            in case draw_areas (areas mesh) start count 0 of
                 (runs, Some missing) \<Rightarrow>
                   (setup @ map draw runs @ [OnError (ErrGeometryMeshAreaMissing p missing)], False)
               | (runs, None) \<Rightarrow>
                   (let (evs', r) = render_passes_instanced p mesh effect technique instanceVB
                                      instanceDecl instanceStride instanceCount start count passes
                    in (setup @ map draw runs @ [ResetInstanceDivisors] @ evs', r))))"

definition RenderAreasInstanced ::
  "'a Tw2GeometryRes \<Rightarrow> nat \<Rightarrow> nat \<Rightarrow> nat \<Rightarrow> Tw2Effect \<Rightarrow> string option \<Rightarrow> nat option \<Rightarrow>
   Tw2VertexDeclaration \<Rightarrow> nat \<Rightarrow> nat \<Rightarrow> event list \<times> (error + bool)" where
  "RenderAreasInstanced res meshIx start count effect tech instanceVB instanceDecl
     instanceStride instanceCount =
     (let technique = technique_or_default effect tech;
          passCount = GetPassCount effect technique
      in if passCount = 0 \<or> \<not> isGood res \<or> meshIx \<ge> length (meshes res)
         then ([KeepAlive], Inr False)
         else
           (case nth_opt (meshes res) meshIx of
              None \<Rightarrow> ([KeepAlive], Inl TypeError)
            | Some mesh \<Rightarrow>
                (let (evs, r) = render_passes_instanced (path res) mesh effect technique
                                  instanceVB instanceDecl instanceStride instanceCount
                                  start count [0..<passCount]
                 in ([KeepAlive, BindBuffer ELEMENT_ARRAY_BUFFER (indexes mesh)] @ evs, Inr r))))"

text \<open>The draw submissions and the reported errors among the calls.\<close>

fun is_draw :: "event \<Rightarrow> bool" where
  "is_draw (DrawElements mode c t off) = True"
| "is_draw (DrawElementsInstanced mode c t off n) = True"
| "is_draw e = False"

fun reported :: "event list \<Rightarrow> error list" where
  "reported [] = []"
| "reported (OnError e # evs) = e # reported evs"
| "reported (ev # evs) = reported evs"

definition draw_calls :: "event list \<Rightarrow> event list" where
  "draw_calls evs = filter is_draw evs"

section \<open>Example inputs\<close>

text \<open>
  A resource with one mesh whose four areas are those of the area-merge example, an
  effect with one pass, and a declaration binding that accepts every pass input.
\<close>

definition example_areas :: "Tw2GeometryMeshArea list" where
  "example_areas =
     [\<lparr>area_name = ''a0'', area_start = 0, area_count = 10\<rparr>,
      \<lparr>area_name = ''a1'', area_start = 20, area_count = 5\<rparr>,
      \<lparr>area_name = ''a2'', area_start = 30, area_count = 8\<rparr>,
      \<lparr>area_name = ''a3'', area_start = 100, area_count = 4\<rparr>]"

definition example_mesh :: "real Tw2GeometryMesh" where
  "example_mesh =
     \<lparr>mesh_name = ''hull'', mesh_declaration = \<lparr>decl_elements = [], stride = 12\<rparr>,
      areas = example_areas, bufferLength = 0, buffer = Some 1, indexes = Some 2,
      indexType = UNSIGNED_INT, mesh_minBounds = (0, 0, 0), mesh_maxBounds = (1, 1, 1),
      mesh_boundsDirty = True, boneBindings = [''root'', ''wing''], boneBounds = [],
      bufferData = None, indexData = None, count_areas = 4, count_faces = Finite 0,
      count_vertices = Finite 0\<rparr>"

definition example_res :: "real Tw2GeometryRes" where
  "example_res =
     \<lparr>path = ''res:/hull.wbg'', isGood = True, meshes = [example_mesh],
      minBounds = (0, 0, 0), maxBounds = (1, 1, 1), boundsSpherePosition = (0, 0, 0),
      boundsSphereRadius = 1, models = [], animations = [], isCustom = False,
      requiresSystemMirror = False, requestResponseType = None, extension = Some ''wbg'',
      boundsDirty = False, custom = None\<rparr>"

definition example_element :: Tw2VertexElement where
  "example_element = \<lparr>usage = 0, usageIndex = 0, fileType = 0x44, elements = 3, offset = 0\<rparr>"

definition example_effect :: Tw2Effect where
  "example_effect =
     \<lparr>defaultTechnique = ''Main'', GetPassCount = (\<lambda>t. 1),
      GetPassInput = (\<lambda>t pass. \<lparr>input_elements = [example_element]\<rparr>)\<rparr>"

definition empty_input_effect :: Tw2Effect where
  "empty_input_effect =
     \<lparr>defaultTechnique = ''Main'', GetPassCount = (\<lambda>t. 1),
      GetPassInput = (\<lambda>t pass. \<lparr>input_elements = []\<rparr>)\<rparr>"

definition accept_all :: set_declaration where
  "accept_all decl passInput s = True"

text \<open>
  A bounds library over the reals: boxes united by componentwise minimum and maximum,
  a sphere around the centre of the box, and a mesh whose own rebuild clears its flag.
\<close>

definition vmin :: "real vec3 \<Rightarrow> real vec3 \<Rightarrow> real vec3" where
  "vmin a b = (case (a, b) of ((ax, ay, az), (bx, by, bz)) \<Rightarrow> (min ax bx, min ay by, min az bz))"

definition vmax :: "real vec3 \<Rightarrow> real vec3 \<Rightarrow> real vec3" where
  "vmax a b = (case (a, b) of ((ax, ay, az), (bx, by, bz)) \<Rightarrow> (max ax bx, max ay by, max az bz))"

definition example_lib :: "real bounds_lib" where
  "example_lib =
     \<lparr>bounds_empty = ((1000, 1000, 1000), (-1000, -1000, -1000)),
      bounds_union = (\<lambda>(amin, amax) (bmin, bmax). (vmin amin bmin, vmax amax bmax)),
      bounds_toPositionRadius =
        (\<lambda>(mn, mx). (case (mn, mx) of ((ax, ay, az), (bx, by, bz)) \<Rightarrow>
           (((ax + bx) / 2, (ay + by) / 2, (az + bz) / 2), (bx - ax) / 2))),
      mesh_RebuildBounds =
        (\<lambda>force m. if mesh_boundsDirty m \<or> force then m\<lparr>mesh_boundsDirty := False\<rparr> else m)\<rparr>"

text \<open>Two skeletons for the bone names of the example mesh, a ray, and a reader by mesh.\<close>

definition example_model :: "real Tw2GeometryModel" where
  "example_model =
     \<lparr>model_name = ''ship'',
      skeleton = Some [\<lparr>bone_name = ''wing'', boundingBox = None\<rparr>,
                       \<lparr>bone_name = ''root'', boundingBox = None\<rparr>],
      meshBindings = []\<rparr>"

definition example_model_without_wing :: "real Tw2GeometryModel" where
  "example_model_without_wing =
     \<lparr>model_name = ''pod'',
      skeleton = Some [\<lparr>bone_name = ''root'', boundingBox = None\<rparr>],
      meshBindings = []\<rparr>"

definition example_ray :: "(real, unit) Tw2RayCaster" where
  "example_ray =
     \<lparr>IntersectBounds = (\<lambda>mn mx w. True),
      sortFunction = (\<lambda>a b. distance a - distance b)\<rparr>"

definition example_mesh_Intersect :: "real Tw2GeometryMesh \<Rightarrow> unit \<Rightarrow> intersection list" where
  "example_mesh_Intersect mesh w =
     [\<lparr>distance = 2, hit_geometryResource = None, hit_meshIndex = None, hit_mesh = None\<rparr>,
      \<lparr>distance = 1, hit_geometryResource = None, hit_meshIndex = None, hit_mesh = None\<rparr>]"

definition example_descriptor :: "real mesh_descriptor" where
  "example_descriptor =
     \<lparr>d_bufferData = [0, 0, 0, 1, 0, 0, 0, 1, 0], d_indexData = [0, 1, 2],
      d_BYTES_PER_ELEMENT = 2, d_declaration = \<lparr>decl_elements = [example_element], stride = 12\<rparr>,
      d_areas = [\<lparr>area_name = ''tri'', area_start = 0, area_count = 3\<rparr>], d_name = None\<rparr>"

definition example_new_mesh :: "real Tw2GeometryMesh" where
  "example_new_mesh =
     \<lparr>mesh_name = '''', mesh_declaration = \<lparr>decl_elements = [], stride = 0\<rparr>,
      areas = [], bufferLength = 0, buffer = None, indexes = None,
      indexType = UNSIGNED_SHORT, mesh_minBounds = (0, 0, 0), mesh_maxBounds = (0, 0, 0),
      mesh_boundsDirty = True, boneBindings = [], boneBounds = [],
      bufferData = None, indexData = None, count_areas = 0, count_faces = Finite 0,
      count_vertices = Finite 0\<rparr>"

definition example_reader :: "(real, nat list, unit) geometry_reader" where
  "example_reader =
     \<lparr>byMesh = True, construct = (\<lambda>dat. Inr (map (\<lambda>k. example_descriptor) dat)),
      reader_Prepare = (\<lambda>dat res options. Inr res)\<rparr>"

definition example_loader :: "(real, nat list, unit) loader_lib" where
  "example_loader =
     \<lparr>readers = (\<lambda>ext. if ext = ''wbg'' then Some example_reader else None),
      new_mesh = example_new_mesh,
      new_model = \<lparr>model_name = '''', skeleton = None, meshBindings = []\<rparr>,
      mesh_RecalculateAreaBounds = (\<lambda>vs is m. m\<lparr>mesh_boundsDirty := True\<rparr>),
      mesh_ClearSystemMirrorIfNotRequired = (\<lambda>m. m\<lparr>bufferData := None, indexData := None\<rparr>),
      IsSystemMirrorEnabled = False\<rparr>"

text \<open>
  Byte streams in the persisted layout: two elements (three normalized signed bytes, two
  normalized unsigned bytes) with two vertices; one normalized signed byte of value
  \<open>0x80\<close>; an element of unknown file type \<open>0x25\<close> with one vertex and with none.
\<close>

definition empty_declaration :: Tw2VertexDeclaration where
  "empty_declaration = \<lparr>decl_elements = [], stride = 0\<rparr>"

definition two_element_stream :: Tw2BinaryReader where
  "two_element_stream =
     \<lparr>data = [2, 0, 0, 0x50, 1, 0, 0x38, 2, 0, 0, 0,
              0x80, 0x7f, 0x01, 0xff, 0x00,
              3, 4, 5, 0x33, 0x66],
      cursor = 0\<rparr>"

definition two_element_declaration :: Tw2VertexDeclaration where
  "two_element_declaration =
     \<lparr>decl_elements =
        [\<lparr>usage = 0, usageIndex = 0, fileType = 0x50, elements = 3, offset = 0\<rparr>,
         \<lparr>usage = 1, usageIndex = 0, fileType = 0x38, elements = 2, offset = 12\<rparr>],
      stride = 20\<rparr>"

definition signed_byte_stream :: Tw2BinaryReader where
  "signed_byte_stream = \<lparr>data = [1, 0, 0, 0x10, 1, 0, 0, 0, 0x80], cursor = 0\<rparr>"




text \<open>A box for each area of the example mesh, along the first axis.\<close>

definition example_area_box :: "Tw2GeometryMeshArea \<Rightarrow> real vec3 \<times> real vec3" where
  "example_area_box area =
     ((real (area_start area), 0, 0), (real (area_start area) + real (area_count area), 1, 1))"

section \<open>Properties of the bounds\<close>

lemma rebuild_meshes_eq:
  "rebuild_meshes lib force ms box =
     (map (mesh_RebuildBounds lib force) ms,
      foldl (\<lambda>box m. bounds_union lib box (mesh_minBounds m, mesh_maxBounds m)) box
        (map (mesh_RebuildBounds lib force) ms))"
  by (induction ms arbitrary: box) (simp_all add: Let_def)

lemma recompute_bounds_eq:
  "recompute_bounds lib force res =
     res\<lparr>meshes := map (mesh_RebuildBounds lib force) (meshes res),
         minBounds := fst (bounds_of_meshes lib (map (mesh_RebuildBounds lib force) (meshes res))),
         maxBounds := snd (bounds_of_meshes lib (map (mesh_RebuildBounds lib force) (meshes res))),
         boundsSpherePosition := fst (bounds_toPositionRadius lib
            (bounds_of_meshes lib (map (mesh_RebuildBounds lib force) (meshes res)))),
         boundsSphereRadius := snd (bounds_toPositionRadius lib
            (bounds_of_meshes lib (map (mesh_RebuildBounds lib force) (meshes res)))),
         boundsDirty := False\<rparr>"
  by (simp add: recompute_bounds_def rebuild_meshes_eq bounds_of_meshes_def case_prod_beta)

lemma RebuildBounds_cases:
  "RebuildBounds lib force res =
     (if boundsDirty res \<or> force \<or> list_ex mesh_boundsDirty (meshes res)
      then recompute_bounds lib force res else res)"
  by (simp add: RebuildBounds_def pull_dirty_def Let_def recompute_bounds_eq)

lemma recompute_twice:
  assumes "\<forall>m\<in>set (meshes res). mesh_RebuildBounds lib force (mesh_RebuildBounds lib force m) =
             mesh_RebuildBounds lib force m"
  shows "recompute_bounds lib force (recompute_bounds lib force res) = recompute_bounds lib force res"
proof -
  from assms have "map (mesh_RebuildBounds lib force) (map (mesh_RebuildBounds lib force) (meshes res)) =
      map (mesh_RebuildBounds lib force) (meshes res)"
    by simp
  then show ?thesis
    by (simp add: recompute_bounds_eq [of lib force "res\<lparr>meshes := _, minBounds := _, maxBounds := _,
          boundsSpherePosition := _, boundsSphereRadius := _, boundsDirty := _\<rparr>"]
        recompute_bounds_eq [of lib force res] del: map_map)
qed

lemma RebuildBounds_keeps:
  "length (meshes (RebuildBounds lib force res)) = length (meshes res)"
  "models (RebuildBounds lib force res) = models res"
  "animations (RebuildBounds lib force res) = animations res"
  "path (RebuildBounds lib force res) = path res"
  "requiresSystemMirror (RebuildBounds lib force res) = requiresSystemMirror res"
  "isCustom (RebuildBounds lib force res) = isCustom res"
  by (simp_all add: RebuildBounds_cases recompute_bounds_eq)

lemma RebuildBounds_twice:
  assumes "\<forall>m\<in>set (meshes res). mesh_RebuildBounds lib force (mesh_RebuildBounds lib force m) =
             mesh_RebuildBounds lib force m"
  shows "RebuildBounds lib force (RebuildBounds lib force res) = RebuildBounds lib force res"
proof (cases "boundsDirty res \<or> force \<or> list_ex mesh_boundsDirty (meshes res)")
  case False
  then show ?thesis by (simp add: RebuildBounds_cases)
next
  case True
  then have first: "RebuildBounds lib force res = recompute_bounds lib force res"
    by (simp add: RebuildBounds_cases)
  show ?thesis
    unfolding first
    by (subst RebuildBounds_cases) (simp add: recompute_twice [OF assms])
qed

lemma RebuildBounds_clean: "\<not> boundsDirty (RebuildBounds lib force res)"
  by (simp add: RebuildBounds_cases recompute_bounds_eq)

lemma Tw2GeometryMesh_RebuildBounds_twice:
  "Tw2GeometryMesh_RebuildBounds lib area_box force
     (Tw2GeometryMesh_RebuildBounds lib area_box force mesh) =
   Tw2GeometryMesh_RebuildBounds lib area_box force mesh"
  by (simp add: Tw2GeometryMesh_RebuildBounds_def Let_def)

text \<open>
  C6. \<open>RebuildBounds\<close> is idempotent: for every resource state and either value of
  \<open>force\<close>, a second call leaves the resource as the first call left it, so
  \<open>minBounds\<close>, \<open>maxBounds\<close>, \<open>boundsSpherePosition\<close> and \<open>boundsSphereRadius\<close> are
  the same after both calls, and the dirty flag is false after each. The \<open>box3\<close>
  helpers and the boxes of the areas are arbitrary; the meshes rebuild their own bounds
  as the spec has it.
\<close>

theorem RebuildBounds_idempotent:
  "RebuildBounds (with_mesh_bounds lib area_box) force
     (RebuildBounds (with_mesh_bounds lib area_box) force res) =
     RebuildBounds (with_mesh_bounds lib area_box) force res \<and>
   \<not> boundsDirty (RebuildBounds (with_mesh_bounds lib area_box) force res) \<and>
   \<not> boundsDirty (RebuildBounds (with_mesh_bounds lib area_box) force
        (RebuildBounds (with_mesh_bounds lib area_box) force res)) \<and>
   minBounds (RebuildBounds (with_mesh_bounds lib area_box) force
        (RebuildBounds (with_mesh_bounds lib area_box) force res)) =
     minBounds (RebuildBounds (with_mesh_bounds lib area_box) force res) \<and>
   maxBounds (RebuildBounds (with_mesh_bounds lib area_box) force
        (RebuildBounds (with_mesh_bounds lib area_box) force res)) =
     maxBounds (RebuildBounds (with_mesh_bounds lib area_box) force res) \<and>
   boundsSpherePosition (RebuildBounds (with_mesh_bounds lib area_box) force
        (RebuildBounds (with_mesh_bounds lib area_box) force res)) =
     boundsSpherePosition (RebuildBounds (with_mesh_bounds lib area_box) force res) \<and>
   boundsSphereRadius (RebuildBounds (with_mesh_bounds lib area_box) force
        (RebuildBounds (with_mesh_bounds lib area_box) force res)) =
     boundsSphereRadius (RebuildBounds (with_mesh_bounds lib area_box) force res)"
proof -
  let ?lib = "with_mesh_bounds lib area_box"
  have "\<forall>m\<in>set (meshes res). mesh_RebuildBounds ?lib force (mesh_RebuildBounds ?lib force m) =
      mesh_RebuildBounds ?lib force m"
    by (simp add: with_mesh_bounds_def Tw2GeometryMesh_RebuildBounds_twice)
  then have "RebuildBounds ?lib force (RebuildBounds ?lib force res) = RebuildBounds ?lib force res"
    by (rule RebuildBounds_twice)
  then show ?thesis by (simp add: RebuildBounds_clean)
qed

text \<open>
  The example resource is clean but owns a dirty mesh, so the first call recomputes: the
  mesh takes the box of its four areas and the resource the box of the mesh. A forced
  second call recomputes again and arrives at the same state.
\<close>

theorem RebuildBounds_idempotent_witness:
  "RebuildBounds (with_mesh_bounds example_lib example_area_box) False example_res \<noteq> example_res \<and>
   RebuildBounds (with_mesh_bounds example_lib example_area_box) False
     (RebuildBounds (with_mesh_bounds example_lib example_area_box) False example_res) =
     RebuildBounds (with_mesh_bounds example_lib example_area_box) False example_res \<and>
   RebuildBounds (with_mesh_bounds example_lib example_area_box) True
     (RebuildBounds (with_mesh_bounds example_lib example_area_box) True example_res) =
     RebuildBounds (with_mesh_bounds example_lib example_area_box) True example_res \<and>
   \<not> boundsDirty (RebuildBounds (with_mesh_bounds example_lib example_area_box) False example_res) \<and>
   minBounds (RebuildBounds (with_mesh_bounds example_lib example_area_box) False example_res) =
     (0, 0, 0) \<and>
   maxBounds (RebuildBounds (with_mesh_bounds example_lib example_area_box) False example_res) =
     (104, 1, 1) \<and>
   boundsSphereRadius (RebuildBounds (with_mesh_bounds example_lib example_area_box) False example_res) =
     52"
proof -
  let ?lib = "with_mesh_bounds example_lib example_area_box"
  have changed: "RebuildBounds ?lib False example_res \<noteq> example_res"
    by code_simp
  have box: "minBounds (RebuildBounds ?lib False example_res) = (0, 0, 0)"
    "maxBounds (RebuildBounds ?lib False example_res) = (104, 1, 1)"
    "boundsSphereRadius (RebuildBounds ?lib False example_res) = 52"
    by code_simp+
  from RebuildBounds_idempotent [of example_lib example_area_box False example_res]
    RebuildBounds_idempotent [of example_lib example_area_box True example_res]
    changed box
  show ?thesis by blast
qed

text \<open>
  C3, as the code has it. \<open>Clear\<close> leaves the dirty flag of the resource as it was.
  Dirtiness is pulled up: a clean resource that owns a dirty mesh recomputes at the next
  \<open>RebuildBounds\<close>. Whenever \<open>RebuildBounds\<close> recomputes (flag set, forced, or a dirty
  mesh) every mesh is rebuilt, the bounds fields are those of the rebuilt meshes and the
  flag is false; otherwise the call changes nothing.
\<close>

theorem dirty_flag_pulled_up:
  "boundsDirty (Clear res) = boundsDirty res \<and>
   (\<not> boundsDirty res \<and> list_ex mesh_boundsDirty (meshes res) \<longrightarrow>
      RebuildBounds lib False res = recompute_bounds lib False res) \<and>
   (boundsDirty res \<or> force \<or> list_ex mesh_boundsDirty (meshes res) \<longrightarrow>
      meshes (RebuildBounds lib force res) = map (mesh_RebuildBounds lib force) (meshes res) \<and>
      (minBounds (RebuildBounds lib force res), maxBounds (RebuildBounds lib force res)) =
        bounds_of_meshes lib (meshes (RebuildBounds lib force res)) \<and>
      (boundsSpherePosition (RebuildBounds lib force res),
       boundsSphereRadius (RebuildBounds lib force res)) =
        bounds_toPositionRadius lib (bounds_of_meshes lib (meshes (RebuildBounds lib force res))) \<and>
      \<not> boundsDirty (RebuildBounds lib force res)) \<and>
   (\<not> boundsDirty res \<and> \<not> force \<and> \<not> list_ex mesh_boundsDirty (meshes res) \<longrightarrow>
      RebuildBounds lib force res = res)"
  by (simp add: Clear_def RebuildBounds_cases recompute_bounds_eq)

text \<open>The example resource: clean, with one dirty mesh.\<close>

theorem dirty_flag_pulled_up_witness:
  "\<not> boundsDirty example_res \<and> list_ex mesh_boundsDirty (meshes example_res) \<and>
   RebuildBounds example_lib False example_res = recompute_bounds example_lib False example_res \<and>
   map mesh_boundsDirty (meshes (RebuildBounds example_lib False example_res)) = [False] \<and>
   (minBounds (RebuildBounds example_lib False example_res),
    maxBounds (RebuildBounds example_lib False example_res)) = ((0, 0, 0), (1, 1, 1)) \<and>
   \<not> boundsDirty (RebuildBounds example_lib False example_res) \<and>
   \<not> boundsDirty (Clear example_res)"
  using dirty_flag_pulled_up [of example_res example_lib False]
  by (simp add: example_res_def example_mesh_def example_lib_def bounds_of_meshes_def
      vmin_def vmax_def Clear_def RebuildBounds_cases recompute_bounds_eq)

text \<open>
  C3 as stated fails: clearing the clean example resource removes its mesh and leaves the
  flag false, and the next \<open>RebuildBounds\<close> skips.
\<close>

theorem clear_keeps_flag_counterexample:
  "\<not> boundsDirty example_res \<and> meshes example_res \<noteq> [] \<and>
   meshes (Clear example_res) = [] \<and> \<not> boundsDirty (Clear example_res) \<and>
   RebuildBounds example_lib False (Clear example_res) = Clear example_res"
  by (simp add: example_res_def Clear_def RebuildBounds_cases)

section \<open>Properties of Clear and Prepare\<close>

lemma PrepareFromMeshes_loop_result:
  assumes "length (meshes res) = i" "length (models res) = i"
  shows "length (meshes (snd (PrepareFromMeshes_loop ll i descs (dev, res)))) = i + length descs \<and>
     models (snd (PrepareFromMeshes_loop ll i descs (dev, res))) =
       models res @ replicate (length descs) (new_model ll) \<and>
     animations (snd (PrepareFromMeshes_loop ll i descs (dev, res))) = animations res"
  using assms
proof (induction descs arbitrary: i dev res)
  case Nil
  then show ?case by simp
next
  case (Cons desc descs)
  obtain mesh dev' where m: "prepare_mesh ll (path res) i desc dev = (mesh, dev')"
    by (cases "prepare_mesh ll (path res) i desc dev")
  let ?res = "res\<lparr>meshes := js_set (meshes res) i mesh, models := js_set (models res) i (new_model ll)\<rparr>"
  from Cons.prems have "length (meshes ?res) = i + 1" "length (models ?res) = i + 1"
    by (simp_all add: js_set_def)
  from Cons.IH [OF this, of dev'] Cons.prems m show ?case
    by (simp add: js_set_def replicate_app_Cons_same)
qed

lemma Clear_update:
  "Clear (res\<lparr>meshes := ms, models := mo, animations := an\<rparr>) = Clear res"
  by (simp add: Clear_def)

text \<open>
  C8. After \<open>Clear\<close> the resource has no meshes, models or animations and zero bounds,
  and a second \<open>Clear\<close> changes nothing. \<open>Prepare\<close> clears first: its result does not
  depend on the meshes, models and animations the resource held before, and through a
  \<open>byMesh\<close> reader a successful \<open>Prepare\<close> leaves one mesh and one new model per
  descriptor and no animation.
\<close>

theorem Clear_then_Prepare:
  "meshes (Clear res) = [] \<and> models (Clear res) = [] \<and> animations (Clear res) = [] \<and>
   minBounds (Clear res) = (0, 0, 0) \<and> maxBounds (Clear res) = (0, 0, 0) \<and>
   boundsSpherePosition (Clear res) = (0, 0, 0) \<and> boundsSphereRadius (Clear res) = 0 \<and>
   Clear (Clear res) = Clear res \<and>
   Prepare lib ll dat options (dev, res) = prepare_cleared lib ll dat options (dev, Clear res) \<and>
   Prepare lib ll dat options (dev, res\<lparr>meshes := ms, models := mo, animations := an\<rparr>) =
     Prepare lib ll dat options (dev, res) \<and>
   (extension res = Some ext \<and> readers ll ext = Some Reader \<and> byMesh Reader \<and>
    construct Reader dat = Inr descs \<longrightarrow>
      (\<exists>dev' res'. Prepare lib ll dat options (dev, res) = Inr (dev', res') \<and>
         length (meshes res') = length descs \<and>
         models res' = replicate (length descs) (new_model ll) \<and>
         animations res' = []))"
proof -
  have "\<exists>dev' res'. Prepare lib ll dat options (dev, res) = Inr (dev', res') \<and>
         length (meshes res') = length descs \<and>
         models res' = replicate (length descs) (new_model ll) \<and>
         animations res' = []"
    if r: "extension res = Some ext" "readers ll ext = Some Reader" "byMesh Reader"
      "construct Reader dat = Inr descs"
  proof -
    obtain dev1 res1 where p: "PrepareFromMeshes_loop ll 0 descs (dev, Clear res) = (dev1, res1)"
      by (cases "PrepareFromMeshes_loop ll 0 descs (dev, Clear res)")
    from PrepareFromMeshes_loop_result [of "Clear res" 0 ll descs dev] p
    have res1: "length (meshes res1) = length descs"
      "models res1 = replicate (length descs) (new_model ll)" "animations res1 = []"
      by (simp_all add: Clear_def)
    from r have ext: "extension (Clear res) = Some ext" by (simp add: Clear_def)
    from ext r p res1 show ?thesis
      by (simp add: Prepare_def prepare_cleared_def PrepareFromMeshes_def Let_def
          OnPrepared_def ClearSystemMirrorIfNotRequired_def RebuildBounds_keeps)
  qed
  then show ?thesis
    by (simp add: Clear_update Prepare_def) (simp add: Clear_def)
qed

text \<open>Preparing the example resource from two descriptors.\<close>

theorem Clear_then_Prepare_witness:
  "extension example_res = Some ''wbg'' \<and>
   readers example_loader ''wbg'' = Some example_reader \<and> byMesh example_reader \<and>
   construct example_reader [7, 8] = Inr [example_descriptor, example_descriptor] \<and>
   meshes example_res = [example_mesh] \<and>
   meshes (Clear example_res) = [] \<and> maxBounds (Clear example_res) = (0, 0, 0) \<and>
   Clear (Clear example_res) = Clear example_res \<and>
   (\<exists>dev' res'. Prepare example_lib example_loader [7, 8] ()
        (\<lparr>next_buffer = 0, gl_calls = []\<rparr>, example_res) = Inr (dev', res') \<and>
      length (meshes res') = 2 \<and>
      models res' = [new_model example_loader, new_model example_loader] \<and>
      animations res' = [])"
proof -
  have given: "extension example_res = Some ''wbg''" "meshes example_res = [example_mesh]"
    by (simp_all add: example_res_def)
  have reader: "readers example_loader ''wbg'' = Some example_reader" "byMesh example_reader"
    "construct example_reader [7, 8] = Inr [example_descriptor, example_descriptor]"
    by (simp_all add: example_loader_def example_reader_def)
  from Clear_then_Prepare [of example_res example_lib example_loader "[7, 8]" "()"
      "\<lparr>next_buffer = 0, gl_calls = []\<rparr>" "[]" "[]" "[]" "''wbg''" example_reader
      "[example_descriptor, example_descriptor]"] given reader
  show ?thesis by (fastforce simp: numeral_2_eq_2)
qed

section \<open>Properties of BindMeshToModel\<close>

lemma find_bone_set_box:
  "find_bone (bones[b := (bones ! b)\<lparr>boundingBox := box\<rparr>]) name k = find_bone bones name k"
proof (induction bones arbitrary: b k)
  case Nil
  show ?case by simp
next
  case (Cons bone bones)
  show ?case by (cases b) (simp_all add: Cons.IH)
qed

lemma set_bone_box_simps:
  "FindBoneByName (set_bone_box model b box) name = FindBoneByName model name"
  "model_name (set_bone_box model b box) = model_name model"
  "meshBindings (set_bone_box model b box) = meshBindings model"
  by (cases "skeleton model"; simp add: FindBoneByName_def set_bone_box_def find_bone_set_box)+

lemma bind_bones_failure:
  "find (\<lambda>n. FindBoneByName model n = None) names = Some bad \<Longrightarrow>
   \<exists>model'. bind_bones p mesh names (binding, model) =
       Inl (ErrGeometryMeshBoneNameInvalid p (mesh_name (binding_mesh binding)) bad
              (model_name model), model') \<and>
     meshBindings model' = meshBindings model"
proof (induction names arbitrary: binding model)
  case Nil
  then show ?case by simp
next
  case (Cons name names)
  show ?case
  proof (cases "FindBoneByName model name")
    case None
    with Cons.prems show ?thesis by simp
  next
    case (Some bone)
    let ?model = "set_bone_box model bone (FindBoneBoundsByName mesh name)"
    from Some Cons.prems
    have "find (\<lambda>n. FindBoneByName ?model n = None) names = Some bad"
      by (simp add: set_bone_box_simps)
    from Cons.IH [OF this, of "binding\<lparr>binding_bones := binding_bones binding @ [bone]\<rparr>"] Some
    show ?thesis by (simp add: set_bone_box_simps)
  qed
qed

lemma bind_bones_success:
  "find (\<lambda>n. FindBoneByName model n = None) names = None \<Longrightarrow>
   \<exists>model'. bind_bones p mesh names (binding, model) =
       Inr (binding\<lparr>binding_bones :=
              binding_bones binding @ map (\<lambda>n. the (FindBoneByName model n)) names\<rparr>, model') \<and>
     meshBindings model' = meshBindings model"
proof (induction names arbitrary: binding model)
  case Nil
  then show ?case by simp
next
  case (Cons name names)
  from Cons.prems obtain bone where bone: "FindBoneByName model name = Some bone"
    by (cases "FindBoneByName model name") (simp_all split: if_splits)
  let ?model = "set_bone_box model bone (FindBoneBoundsByName mesh name)"
  from bone Cons.prems
  have "find (\<lambda>n. FindBoneByName ?model n = None) names = None"
    by (simp add: set_bone_box_simps)
  from Cons.IH [OF this, of "binding\<lparr>binding_bones := binding_bones binding @ [bone]\<rparr>"] bone
  show ?case by (simp add: set_bone_box_simps)
qed

text \<open>
  C7. If some name of \<open>mesh.boneBindings\<close> has no bone in the model,
  \<open>BindMeshToModel\<close> throws \<open>ErrGeometryMeshBoneNameInvalid\<close> with the path of the
  resource, the name of the mesh, the first such bone name and the name of the model, and
  the \<open>meshBindings\<close> of the model are as before. If every name has a bone, one binding
  with the bones in the order of \<open>boneBindings\<close> is appended.
\<close>

theorem BindMeshToModel_bone_names:
  "(name \<in> set (boneBindings mesh) \<and> FindBoneByName model name = None \<longrightarrow>
      (\<exists>bad model'.
         find (\<lambda>n. FindBoneByName model n = None) (boneBindings mesh) = Some bad \<and>
         BindMeshToModel mesh model res =
           Inl (ErrGeometryMeshBoneNameInvalid (path res) (mesh_name mesh) bad (model_name model),
                model') \<and>
         meshBindings model' = meshBindings model)) \<and>
   ((\<forall>n \<in> set (boneBindings mesh). FindBoneByName model n \<noteq> None) \<longrightarrow>
      (\<exists>model'.
         BindMeshToModel mesh model res = Inr model' \<and>
         meshBindings model' =
           meshBindings model @
           [\<lparr>binding_mesh = mesh,
             binding_bones = map (\<lambda>n. the (FindBoneByName model n)) (boneBindings mesh)\<rparr>]))"
proof (intro conjI impI)
  assume missing: "name \<in> set (boneBindings mesh) \<and> FindBoneByName model name = None"
  then obtain bad where bad: "find (\<lambda>n. FindBoneByName model n = None) (boneBindings mesh) = Some bad"
    by (cases "find (\<lambda>n. FindBoneByName model n = None) (boneBindings mesh)")
       (auto simp: find_None_iff)
  from bind_bones_failure [OF bad, of "path res" mesh "\<lparr>binding_mesh = mesh, binding_bones = []\<rparr>"]
  obtain model' where
    "bind_bones (path res) mesh (boneBindings mesh) (\<lparr>binding_mesh = mesh, binding_bones = []\<rparr>, model) =
       Inl (ErrGeometryMeshBoneNameInvalid (path res) (mesh_name mesh) bad (model_name model), model')"
    and "meshBindings model' = meshBindings model"
    by auto
  with bad show "\<exists>bad model'.
         find (\<lambda>n. FindBoneByName model n = None) (boneBindings mesh) = Some bad \<and>
         BindMeshToModel mesh model res =
           Inl (ErrGeometryMeshBoneNameInvalid (path res) (mesh_name mesh) bad (model_name model),
                model') \<and>
         meshBindings model' = meshBindings model"
    by (simp add: BindMeshToModel_def)
next
  assume "\<forall>n \<in> set (boneBindings mesh). FindBoneByName model n \<noteq> None"
  then have "find (\<lambda>n. FindBoneByName model n = None) (boneBindings mesh) = None"
    by (simp add: find_None_iff)
  from bind_bones_success [OF this, of "path res" mesh "\<lparr>binding_mesh = mesh, binding_bones = []\<rparr>"]
  show "\<exists>model'.
         BindMeshToModel mesh model res = Inr model' \<and>
         meshBindings model' =
           meshBindings model @
           [\<lparr>binding_mesh = mesh,
             binding_bones = map (\<lambda>n. the (FindBoneByName model n)) (boneBindings mesh)\<rparr>]"
    by (auto simp: BindMeshToModel_def)
qed

text \<open>The example mesh names the bones root and wing; one model lacks the wing.\<close>

theorem BindMeshToModel_bone_names_witness:
  "''wing'' \<in> set (boneBindings example_mesh) \<and>
   FindBoneByName example_model_without_wing ''wing'' = None \<and>
   (\<exists>model'. BindMeshToModel example_mesh example_model_without_wing example_res =
      Inl (ErrGeometryMeshBoneNameInvalid ''res:/hull.wbg'' ''hull'' ''wing'' ''pod'', model') \<and>
      meshBindings model' = []) \<and>
   FindBoneByName example_model ''root'' = Some 1 \<and>
   FindBoneByName example_model ''wing'' = Some 0 \<and>
   (\<exists>model'. BindMeshToModel example_mesh example_model example_res = Inr model' \<and>
      meshBindings model' = [\<lparr>binding_mesh = example_mesh, binding_bones = [1, 0]\<rparr>])"
  using BindMeshToModel_bone_names [of "''wing''" example_mesh example_model_without_wing example_res]
    BindMeshToModel_bone_names [of "''wing''" example_mesh example_model example_res]
  by (simp add: example_mesh_def example_model_def example_model_without_wing_def
      example_res_def FindBoneByName_def)

section \<open>Properties of Intersect\<close>

lemma nth_opt_eq_Some: "nth_opt xs i = Some x \<longleftrightarrow> i < length xs \<and> xs ! i = x"
  by (induction xs i rule: nth_opt.induct) auto

lemma nth_opt_eq_None: "nth_opt xs i = None \<longleftrightarrow> length xs \<le> i"
  by (induction xs i rule: nth_opt.induct) auto

text \<open>
  C9. For a mesh index at or beyond the number of meshes \<open>Intersect\<close> returns the empty
  array, whether or not the ray meets the bounds; nothing is thrown, and the resource is
  left as \<open>RebuildBounds\<close> leaves it.
\<close>

theorem Intersect_mesh_index_out_of_range:
  assumes "length (meshes res) \<le> meshIndex"
  shows "Intersect lib mesh_Intersect ray worldTransform meshIndex res =
     ([], RebuildBounds lib False res)"
proof -
  from assms have "nth_opt (meshes (RebuildBounds lib False res)) meshIndex = None"
    by (simp add: nth_opt_eq_None RebuildBounds_keeps)
  then show ?thesis by (simp add: Intersect_def Let_def)
qed

text \<open>A ray that meets every box: mesh 1 of the example gives no hit, mesh 0 gives two, sorted.\<close>

theorem Intersect_mesh_index_out_of_range_witness:
  "length (meshes example_res) \<le> 1 \<and>
   IntersectBounds example_ray (minBounds (RebuildBounds example_lib False example_res))
     (maxBounds (RebuildBounds example_lib False example_res)) () \<and>
   fst (Intersect example_lib example_mesh_Intersect example_ray () 1 example_res) = [] \<and>
   map distance (fst (Intersect example_lib example_mesh_Intersect example_ray () 0 example_res)) =
     [1, 2]"
  using Intersect_mesh_index_out_of_range [of example_res 1 example_lib example_mesh_Intersect
      example_ray "()"]
  by (simp add: example_res_def example_ray_def example_mesh_Intersect_def Intersect_def
      RebuildBounds_cases recompute_bounds_eq Let_def)

section \<open>Properties of the area renderer\<close>

lemma merge_areas_missing:
  "i + start < length as \<Longrightarrow> length as < start + count \<Longrightarrow>
   merge_areas as start count i areaStart areaCount = Inl (length as) \<or>
   (\<exists>i' c. merge_areas as start count i areaStart areaCount = Inr (i', c) \<and>
            i' + 1 + start < length as)"
proof (induction as start count i areaStart areaCount rule: merge_areas.induct)
  case (1 as start count i areaStart areaCount)
  from "1.prems" have inside: "i + 1 < count" by simp
  show ?case
  proof (cases "nth_opt as (i + 1 + start)")
    case None
    with "1.prems" have "i + 1 + start = length as" by (simp add: nth_opt_eq_None)
    with inside None show ?thesis by (simp add: merge_areas.simps [of as start count i])
  next
    case (Some area)
    then have present: "i + 1 + start < length as" by (simp add: nth_opt_eq_Some)
    show ?thesis
    proof (cases "area_start area \<noteq> areaStart + areaCount * 2")
      case True
      with inside Some present show ?thesis
        by (simp add: merge_areas.simps [of as start count i])
    next
      case False
      from present "1.prems" "1.IH" [OF inside Some False] inside Some False
      show ?thesis
        by (simp add: merge_areas.simps [of as start count i])
    qed
  qed
qed

lemma draw_areas_missing:
  "i + start < length as \<Longrightarrow> length as < start + count \<Longrightarrow>
   snd (draw_areas as start count i) = Some (length as)"
proof (induction as start count i rule: draw_areas.induct)
  case (1 as start count i)
  from "1.prems" have inside: "i < count" by simp
  let ?area = "as ! (i + start)"
  from merge_areas_missing [OF "1.prems", of "area_start ?area" "area_count ?area"]
  show ?case
  proof (elim disjE exE conjE)
    assume "merge_areas as start count i (area_start ?area) (area_count ?area) = Inl (length as)"
    with inside "1.prems" show ?thesis
      by (simp add: draw_areas.simps [of as start count i])
  next
    fix i' c
    assume m: "merge_areas as start count i (area_start ?area) (area_count ?area) = Inr (i', c)"
      and next_present: "i' + 1 + start < length as"
    from "1.IH"(1) [OF inside "1.prems"(1) refl m refl next_present "1.prems"(2)]
    have "snd (draw_areas as start count (i' + 1)) = Some (length as)" .
    with inside "1.prems" m show ?thesis
      by (simp add: draw_areas.simps [of as start count i] case_prod_beta)
  qed
qed

lemma reported_append: "reported (xs @ ys) = reported xs @ reported ys"
  by (induction xs rule: reported.induct) auto

lemma reported_draws:
  "reported (map (\<lambda>(c, off). DrawElements mode c t off) runs) = []"
  "reported (map (\<lambda>(c, off). DrawElementsInstanced mode c t off n) runs) = []"
  by (induction runs) auto

lemma render_passes_missing:
  assumes "start < length (areas mesh)" "length (areas mesh) < start + count"
    and "sd (mesh_declaration mesh) (GetPassInput effect technique pass) (stride (mesh_declaration mesh))"
  shows "snd (render_passes sd p mesh mode effect technique start count (pass # passes)) = False \<and>
     reported (fst (render_passes sd p mesh mode effect technique start count (pass # passes))) =
       [ErrGeometryMeshAreaMissing p (length (areas mesh))]"
proof -
  from draw_areas_missing [of 0 start "areas mesh" count] assms
  obtain runs where "draw_areas (areas mesh) start count 0 = (runs, Some (length (areas mesh)))"
    by (cases "draw_areas (areas mesh) start count 0") auto
  with assms(3) show ?thesis
    by (simp add: Let_def reported_append reported_draws)
qed

lemma render_passes_instanced_missing:
  assumes "start < length (areas mesh)" "length (areas mesh) < start + count"
    and "list_ex (\<lambda>pass. input_elements (GetPassInput effect technique pass) \<noteq> []) passes"
  shows "snd (render_passes_instanced p mesh effect technique vb idecl istride icount start count passes) = False \<and>
     reported (fst (render_passes_instanced p mesh effect technique vb idecl istride icount start count passes)) =
       [ErrGeometryMeshAreaMissing p (length (areas mesh))]"
  using assms(3)
proof (induction passes)
  case Nil
  then show ?case by simp
next
  case (Cons pass passes)
  from draw_areas_missing [of 0 start "areas mesh" count] assms(1,2)
  obtain runs where d: "draw_areas (areas mesh) start count 0 = (runs, Some (length (areas mesh)))"
    by (cases "draw_areas (areas mesh) start count 0") auto
  show ?case
  proof (cases "input_elements (GetPassInput effect technique pass) = []")
    case True
    with Cons show ?thesis by (simp add: Let_def case_prod_beta)
  next
    case False
    with d show ?thesis by (simp add: Let_def reported_append reported_draws)
  qed
qed

lemma draws_of_runs:
  "filter is_draw (map (\<lambda>(c, off). DrawElements mode c t off) runs) =
   map (\<lambda>(c, off). DrawElements mode c t off) runs"
  by (induction runs) auto

lemma render_passes_complete:
  assumes "\<And>pass. sd (mesh_declaration mesh) (GetPassInput effect technique pass)
             (stride (mesh_declaration mesh))"
    and "draw_areas (areas mesh) start count 0 = (runs, None)"
  shows "snd (render_passes sd p mesh mode effect technique start count passes) = True \<and>
     draw_calls (fst (render_passes sd p mesh mode effect technique start count passes)) =
       concat (replicate (length passes)
         (map (\<lambda>(c, off). DrawElements mode c (indexType mesh) off) runs))"
proof (induction passes)
  case Nil
  show ?case by (simp add: draw_calls_def)
next
  case (Cons pass passes)
  with assms show ?case
    by (simp add: draw_calls_def Let_def case_prod_beta draws_of_runs)
qed

lemma example_runs:
  "draw_areas example_areas 0 3 0 = ([(23, 0)], None)"
  "draw_areas example_areas 0 4 0 = ([(23, 0), (4, 100)], None)"
  by (simp_all add: example_areas_def draw_areas.simps merge_areas.simps)

lemma merge_areas_step:
  "i + 1 < count \<Longrightarrow> nth_opt as (i + 1 + start) = Some a \<Longrightarrow>
   merge_areas as start count i areaStart areaCount =
     (if area_start a = areaStart + areaCount * 2
      then merge_areas as start count (i + 1) areaStart (areaCount + area_count a)
      else Inr (i, areaCount))"
  by (simp add: merge_areas.simps [of as start count i])

lemma draw_areas_pair:
  assumes "k + 1 < length as"
  shows "draw_areas as k 2 0 =
     (if area_start (as ! (k + 1)) = area_start (as ! k) + area_count (as ! k) * 2
      then ([(area_count (as ! k) + area_count (as ! (k + 1)), area_start (as ! k))], None)
      else ([(area_count (as ! k), area_start (as ! k)),
             (area_count (as ! (k + 1)), area_start (as ! (k + 1)))], None))"
proof -
  from assms have n: "nth_opt as (Suc k) = Some (as ! (k + 1))"
    by (simp add: nth_opt_eq_Some)
  have two: "(2::nat) = Suc (Suc 0)" by simp
  from assms n show ?thesis
    by (simp add: draw_areas.simps [of as k 2 0] draw_areas.simps [of as k 2 "Suc 0"]
        draw_areas.simps [of as k 2 "Suc (Suc 0)"]
        merge_areas.simps [of as k 2 0] merge_areas.simps [of as k 2 "Suc 0"] Let_def)
qed

text \<open>
  C2. With the areas \<open>(0,10), (20,5), (30,8), (100,4)\<close>, a \<open>RenderAreas\<close> request for the
  first three areas makes, in every pass, one draw call of count 23 at offset 0, and a
  request for all four makes that call and a separate one for the fourth area. In general
  a run \<open>(areaStart, areaCount)\<close> takes in the next area exactly when that area's start
  is \<open>areaStart + areaCount * 2\<close>; the index type of the mesh only labels the draw call.
\<close>

theorem area_merge:
  assumes "isGood res"
    and "GetPassCount effect (technique_or_default effect tech) = n" and "n \<noteq> 0"
    and "nth_opt (meshes res) meshIx = Some mesh"
    and "areas mesh = example_areas"
    and "\<And>pass. sd (mesh_declaration mesh) (GetPassInput effect (technique_or_default effect tech) pass)
             (stride (mesh_declaration mesh))"
  shows
    "snd (RenderAreas sd res meshIx 0 3 effect tech) = Inr True \<and>
     draw_calls (fst (RenderAreas sd res meshIx 0 3 effect tech)) =
       concat (replicate n [DrawElements TRIANGLES 23 (indexType mesh) 0]) \<and>
     snd (RenderAreas sd res meshIx 0 4 effect tech) = Inr True \<and>
     draw_calls (fst (RenderAreas sd res meshIx 0 4 effect tech)) =
       concat (replicate n [DrawElements TRIANGLES 23 (indexType mesh) 0,
                            DrawElements TRIANGLES 4 (indexType mesh) 100]) \<and>
     (i + 1 < count \<and> nth_opt as (i + 1 + start) = Some a \<longrightarrow>
        merge_areas as start count i areaStart areaCount =
          (if area_start a = areaStart + areaCount * 2
           then merge_areas as start count (i + 1) areaStart (areaCount + area_count a)
           else Inr (i, areaCount))) \<and>
     (k + 1 < length as \<longrightarrow>
        draw_areas as k 2 0 =
          (if area_start (as ! (k + 1)) = area_start (as ! k) + area_count (as ! k) * 2
           then ([(area_count (as ! k) + area_count (as ! (k + 1)), area_start (as ! k))], None)
           else ([(area_count (as ! k), area_start (as ! k)),
                  (area_count (as ! (k + 1)), area_start (as ! (k + 1)))], None)))"
proof -
  let ?t = "technique_or_default effect tech"
  let ?passes = "render_passes sd (path res) mesh TRIANGLES effect ?t 0"
  from assms(4) have ix: "meshIx < length (meshes res)" by (simp add: nth_opt_eq_Some)
  have call: "RenderAreas sd res meshIx 0 c effect tech =
      ([KeepAlive, BindBuffer ARRAY_BUFFER (buffer mesh),
        BindBuffer ELEMENT_ARRAY_BUFFER (indexes mesh)] @ fst (?passes c [0..<n]),
       Inr (snd (?passes c [0..<n])))" for c
    using assms(1,2,3,4) ix by (simp add: RenderAreas_def Let_def case_prod_beta)
  note complete = render_passes_complete [where sd = sd and mesh = mesh and effect = effect
      and technique = ?t and p = "path res" and mode = TRIANGLES and passes = "[0..<n]"
      and start = 0, OF assms(6)]
  from complete [of 3 "[(23, 0)]"] complete [of 4 "[(23, 0), (4, 100)]"] example_runs assms(5)
  have "snd (?passes 3 [0..<n]) = True"
    and "draw_calls (fst (?passes 3 [0..<n])) =
      concat (replicate n [DrawElements TRIANGLES 23 (indexType mesh) 0])"
    and "snd (?passes 4 [0..<n]) = True"
    and "draw_calls (fst (?passes 4 [0..<n])) =
      concat (replicate n [DrawElements TRIANGLES 23 (indexType mesh) 0,
                           DrawElements TRIANGLES 4 (indexType mesh) 100])"
    by simp_all
  then show ?thesis
    using merge_areas_step [of i count as start a areaStart areaCount] draw_areas_pair [of k as]
    by (simp add: call draw_calls_def)
qed

text \<open>The hypotheses of C2 hold for the example resource.\<close>

theorem area_merge_witness:
  "isGood example_res \<and>
   GetPassCount example_effect (technique_or_default example_effect None) = 1 \<and>
   nth_opt (meshes example_res) 0 = Some example_mesh \<and>
   areas example_mesh = example_areas \<and>
   snd (RenderAreas accept_all example_res 0 0 3 example_effect None) = Inr True \<and>
   draw_calls (fst (RenderAreas accept_all example_res 0 0 3 example_effect None)) =
     [DrawElements TRIANGLES 23 UNSIGNED_INT 0] \<and>
   draw_calls (fst (RenderAreas accept_all example_res 0 0 4 example_effect None)) =
     [DrawElements TRIANGLES 23 UNSIGNED_INT 0, DrawElements TRIANGLES 4 UNSIGNED_INT 100] \<and>
   merge_areas example_areas 0 4 0 0 10 = merge_areas example_areas 0 4 1 0 15 \<and>
   draw_areas example_areas 2 2 0 = ([(8, 30), (4, 100)], None)"
  using area_merge [of example_res example_effect None 1 0 example_mesh accept_all
      0 4 example_areas 0 "example_areas ! 1" 0 10 2]
  by (simp add: example_res_def example_effect_def example_mesh_def example_areas_def
      accept_all_def technique_or_default_def)

text \<open>
  C4, as the code has it. A mesh index at or beyond the number of meshes makes both
  \<open>RenderAreas\<close> and \<open>RenderAreasInstanced\<close> return \<open>false\<close> after the keep-alive call,
  with nothing bound and nothing drawn.
\<close>

theorem render_mesh_index_out_of_range:
  assumes "length (meshes res) \<le> meshIx"
  shows "RenderAreas sd res meshIx start count effect tech = ([KeepAlive], Inr False) \<and>
     RenderAreasInstanced res meshIx start count effect tech instanceVB instanceDecl
       instanceStride instanceCount = ([KeepAlive], Inr False)"
  using assms by (simp add: RenderAreas_def RenderAreasInstanced_def)

text \<open>The example resource has one mesh; index 1 is out of range.\<close>

theorem render_mesh_index_out_of_range_witness:
  "length (meshes example_res) \<le> 1 \<and>
   RenderAreas accept_all example_res 1 0 3 example_effect None = ([KeepAlive], Inr False) \<and>
   RenderAreasInstanced example_res 1 0 3 example_effect None (Some 7)
     \<lparr>decl_elements = [], stride = 16\<rparr> 16 5 = ([KeepAlive], Inr False)"
  using render_mesh_index_out_of_range [of example_res 1 accept_all 0 3 example_effect None
      "Some 7" "\<lparr>decl_elements = [], stride = 16\<rparr>" 16 5]
  by (simp add: example_res_def)

text \<open>
  C4 as stated fails: on the example resource (ready, one pass) the request for mesh 1
  draws nothing and returns \<open>false\<close>, where a fallback to mesh 0 would have drawn the run
  of the first three areas.
\<close>

theorem render_areas_fallback_counterexample:
  "isGood example_res \<and>
   GetPassCount example_effect (technique_or_default example_effect None) \<noteq> 0 \<and>
   length (meshes example_res) \<le> 1 \<and>
   RenderAreas accept_all example_res 1 0 3 example_effect None = ([KeepAlive], Inr False) \<and>
   draw_calls (fst (RenderAreas accept_all example_res 0 0 3 example_effect None)) =
     [DrawElements TRIANGLES 23 UNSIGNED_INT 0] \<and>
   RenderAreas accept_all example_res 1 0 3 example_effect None \<noteq>
     RenderAreas accept_all example_res 0 0 3 example_effect None"
  by (simp add: example_res_def example_effect_def example_mesh_def example_areas_def
      accept_all_def technique_or_default_def RenderAreas_def draw_calls_def
      draw_areas.simps merge_areas.simps)

text \<open>
  C10, as the code has it. On a ready resource with a pass and a mesh index in range,
  when \<open>start\<close> is an area index and \<open>start + count\<close> exceeds the number of areas:
  \<open>RenderAreas\<close> and \<open>RenderLines\<close>, if the declaration binds for pass 0, and
  \<open>RenderAreasInstanced\<close>, if some pass has a non-empty input, report exactly one error,
  \<open>ErrGeometryMeshAreaMissing\<close> with the path and the first index beyond the areas, and
  return \<open>false\<close>.
\<close>

theorem render_missing_area:
  assumes "isGood res"
    and "GetPassCount effect (technique_or_default effect tech) \<noteq> 0"
    and "nth_opt (meshes res) meshIx = Some mesh"
    and "start < length (areas mesh)"
    and "length (areas mesh) < start + count"
  shows
    "(sd (mesh_declaration mesh) (GetPassInput effect (technique_or_default effect tech) 0)
         (stride (mesh_declaration mesh)) \<longrightarrow>
        snd (RenderAreas sd res meshIx start count effect tech) = Inr False \<and>
        reported (fst (RenderAreas sd res meshIx start count effect tech)) =
          [ErrGeometryMeshAreaMissing (path res) (length (areas mesh))] \<and>
        snd (RenderLines sd res meshIx start count effect tech) = Inr False \<and>
        reported (fst (RenderLines sd res meshIx start count effect tech)) =
          [ErrGeometryMeshAreaMissing (path res) (length (areas mesh))]) \<and>
     (list_ex (\<lambda>pass. input_elements (GetPassInput effect (technique_or_default effect tech) pass) \<noteq> [])
         [0..<GetPassCount effect (technique_or_default effect tech)] \<longrightarrow>
        snd (RenderAreasInstanced res meshIx start count effect tech vb idecl istride icount) = Inr False \<and>
        reported (fst (RenderAreasInstanced res meshIx start count effect tech vb idecl istride icount)) =
          [ErrGeometryMeshAreaMissing (path res) (length (areas mesh))])"
proof -
  let ?t = "technique_or_default effect tech"
  from assms(3) have ix: "meshIx < length (meshes res)" by (simp add: nth_opt_eq_Some)
  from assms(2) obtain n where pc: "[0..<GetPassCount effect ?t] = 0 # map Suc [0..<n]"
    by (cases "GetPassCount effect ?t") (auto simp: upt_conv_Cons map_Suc_upt simp del: upt_Suc)
  show ?thesis
  proof (intro conjI impI)
    assume sd0: "sd (mesh_declaration mesh) (GetPassInput effect ?t 0) (stride (mesh_declaration mesh))"
    note m = render_passes_missing [where sd = sd and mesh = mesh and effect = effect
        and technique = ?t and pass = 0 and p = "path res" and passes = "map Suc [0..<n]",
        OF assms(4,5) sd0]
    from m [where mode = TRIANGLES] assms(1,2,3) ix pc
    show "snd (RenderAreas sd res meshIx start count effect tech) = Inr False"
      by (simp add: RenderAreas_def Let_def case_prod_beta del: render_passes.simps)
    from m [where mode = TRIANGLES] assms(1,2,3) ix pc
    show "reported (fst (RenderAreas sd res meshIx start count effect tech)) =
          [ErrGeometryMeshAreaMissing (path res) (length (areas mesh))]"
      by (simp add: RenderAreas_def Let_def case_prod_beta del: render_passes.simps)
    from m [where mode = LINES] assms(1,2,3) ix pc
    show "snd (RenderLines sd res meshIx start count effect tech) = Inr False"
      by (simp add: RenderLines_def Let_def case_prod_beta del: render_passes.simps)
    from m [where mode = LINES] assms(1,2,3) ix pc
    show "reported (fst (RenderLines sd res meshIx start count effect tech)) =
          [ErrGeometryMeshAreaMissing (path res) (length (areas mesh))]"
      by (simp add: RenderLines_def Let_def case_prod_beta del: render_passes.simps)
  next
    assume ne: "list_ex (\<lambda>pass. input_elements (GetPassInput effect ?t pass) \<noteq> [])
         [0..<GetPassCount effect ?t]"
    note m = render_passes_instanced_missing [OF assms(4,5) ne, of "path res" vb idecl istride icount]
    from m assms(1,2,3) ix
    show "snd (RenderAreasInstanced res meshIx start count effect tech vb idecl istride icount) = Inr False"
      by (simp add: RenderAreasInstanced_def Let_def case_prod_beta)
    from m assms(1,2,3) ix
    show "reported (fst (RenderAreasInstanced res meshIx start count effect tech vb idecl istride icount)) =
          [ErrGeometryMeshAreaMissing (path res) (length (areas mesh))]"
      by (simp add: RenderAreasInstanced_def Let_def case_prod_beta)
  qed
qed

text \<open>Two areas requested from index 3 of the four example areas.\<close>

theorem render_missing_area_witness:
  "isGood example_res \<and>
   GetPassCount example_effect (technique_or_default example_effect None) \<noteq> 0 \<and>
   nth_opt (meshes example_res) 0 = Some example_mesh \<and>
   3 < length (areas example_mesh) \<and> length (areas example_mesh) < 3 + 2 \<and>
   snd (RenderAreas accept_all example_res 0 3 2 example_effect None) = Inr False \<and>
   reported (fst (RenderAreas accept_all example_res 0 3 2 example_effect None)) =
     [ErrGeometryMeshAreaMissing ''res:/hull.wbg'' 4] \<and>
   snd (RenderLines accept_all example_res 0 3 2 example_effect None) = Inr False \<and>
   reported (fst (RenderLines accept_all example_res 0 3 2 example_effect None)) =
     [ErrGeometryMeshAreaMissing ''res:/hull.wbg'' 4] \<and>
   snd (RenderAreasInstanced example_res 0 3 2 example_effect None (Some 7)
     \<lparr>decl_elements = [], stride = 16\<rparr> 16 5) = Inr False \<and>
   reported (fst (RenderAreasInstanced example_res 0 3 2 example_effect None (Some 7)
     \<lparr>decl_elements = [], stride = 16\<rparr> 16 5)) =
     [ErrGeometryMeshAreaMissing ''res:/hull.wbg'' 4]"
  using render_missing_area [of example_res example_effect None 0 example_mesh 3 2 accept_all
      "Some 7" "\<lparr>decl_elements = [], stride = 16\<rparr>" 16 5]
  by (simp add: example_res_def example_effect_def example_mesh_def example_areas_def
      accept_all_def technique_or_default_def)

text \<open>
  C10 as stated fails for the instanced path: with an effect whose pass input has no
  elements the pass is skipped, nothing is reported and the method returns \<open>true\<close>.
\<close>

theorem render_missing_area_counterexample:
  "isGood example_res \<and>
   GetPassCount empty_input_effect (technique_or_default empty_input_effect None) \<noteq> 0 \<and>
   nth_opt (meshes example_res) 0 = Some example_mesh \<and>
   3 < length (areas example_mesh) \<and> length (areas example_mesh) < 3 + 2 \<and>
   RenderAreasInstanced example_res 0 3 2 empty_input_effect None (Some 7)
     \<lparr>decl_elements = [], stride = 16\<rparr> 16 5 =
     ([KeepAlive, BindBuffer ELEMENT_ARRAY_BUFFER (Some 2), ApplyPass ''Main'' 0], Inr True)"
  by (simp add: example_res_def empty_input_effect_def example_mesh_def example_areas_def
      technique_or_default_def RenderAreasInstanced_def)

section \<open>Properties of ReadVertexBuffer\<close>

lemma read_unsigned_ok:
  "cursor r + k \<le> length (data r) \<Longrightarrow>
   read_unsigned k r =
     Inr (le_value (map unat (take k (drop (cursor r) (data r)))), r\<lparr>cursor := cursor r + k\<rparr>)"
  by (simp add: read_unsigned_def)

lemma one_byte_value:
  assumes "cursor r + 1 \<le> length (data r)"
  shows "le_value (map unat (take 1 (drop (cursor r) (data r)))) < 256"
proof -
  from assms obtain b bs where "drop (cursor r) (data r) = b # bs"
    by (cases "drop (cursor r) (data r)") auto
  moreover have "unat (b :: 8 word) < 256"
    using unsigned_less [of b, where ?'a = nat] by simp
  ultimately show ?thesis by simp
qed

lemma to_signed_byte: "v < 256 \<Longrightarrow> - 128 \<le> to_signed 1 v \<and> to_signed 1 v \<le> 127"
  by (simp add: to_signed_def)

lemma ReadUInt8_ok:
  assumes "cursor r + 1 \<le> length (data r)"
  shows "\<exists>v<256. ReadUInt8 r = Inr (v, r\<lparr>cursor := cursor r + 1\<rparr>)"
  using assms one_byte_value [OF assms] by (simp add: ReadUInt8_def read_unsigned_ok)

lemma ReadInt8_ok:
  assumes "cursor r + 1 \<le> length (data r)"
  shows "\<exists>v. - 128 \<le> v \<and> v \<le> 127 \<and> ReadInt8 r = Inr (v, r\<lparr>cursor := cursor r + 1\<rparr>)"
  using assms to_signed_byte [OF one_byte_value [OF assms]]
  by (simp add: ReadInt8_def read_signed_def read_unsigned_ok)

lemma signed_byte_over:
  assumes "cursor r + 1 \<le> length (data r)" and "127 \<le> d"
  shows "\<exists>v. signed_over ReadInt8 d r = Inr (v, r\<lparr>cursor := cursor r + 1\<rparr>) \<and>
           num_between (- 128 / 127) 1 v"
proof -
  from ReadInt8_ok [OF assms(1)] obtain x where
    x: "- 128 \<le> x" "x \<le> 127" "ReadInt8 r = Inr (x, r\<lparr>cursor := cursor r + 1\<rparr>)"
    by blast
  from assms(2) have d: "0 < d" by simp
  have "real_of_int x / d \<le> 1"
    using x(2) assms(2) d by (simp add: divide_le_eq)
  moreover have "- 128 / 127 \<le> real_of_int x / d"
  proof -
    have "- 128 * d \<le> real_of_int x * 127"
    proof (cases "0 \<le> x")
      case True
      then have "0 \<le> real_of_int x * 127" by simp
      moreover from d have "- 128 * d \<le> 0" by simp
      ultimately show ?thesis by linarith
    next
      case False
      then have "real_of_int x * 127 \<ge> real_of_int x * d"
        using assms(2) by (simp add: mult_left_mono_neg)
      moreover have "- 128 * d \<le> real_of_int x * d"
      proof -
        from x(1) have "- 128 \<le> real_of_int x" by simp
        with d show ?thesis by (intro mult_right_mono) simp_all
      qed
      ultimately show ?thesis by linarith
    qed
    with d show ?thesis by (simp add: divide_le_eq le_divide_eq field_simps)
  qed
  ultimately show ?thesis using x(3) by (simp add: signed_over_def num_between_def)
qed

lemma unsigned_byte_over:
  assumes "cursor r + 1 \<le> length (data r)" and "255 \<le> d"
  shows "\<exists>v. unsigned_over ReadUInt8 d r = Inr (v, r\<lparr>cursor := cursor r + 1\<rparr>) \<and>
           num_between 0 1 v"
proof -
  from ReadUInt8_ok [OF assms(1)] obtain x where
    x: "x < 256" "ReadUInt8 r = Inr (x, r\<lparr>cursor := cursor r + 1\<rparr>)"
    by blast
  from assms(2) have d: "0 < d" by simp
  from x(1) have "real x \<le> 255" by simp
  with assms(2) d have "real x / d \<le> 1" by (simp add: divide_le_eq)
  moreover from d have "0 \<le> real x / d" by simp
  ultimately show ?thesis using x(2) by (simp add: unsigned_over_def num_between_def)
qed

lemma any_read:
  assumes "cursor r + k \<le> length (data r)"
  shows "\<exists>v. signed_over (read_signed k) d r = Inr (v, r\<lparr>cursor := cursor r + k\<rparr>)"
    and "\<exists>v. unsigned_over (read_unsigned k) d r = Inr (v, r\<lparr>cursor := cursor r + k\<rparr>)"
    and "k = 2 \<Longrightarrow> \<exists>v. ReadFloat16 r = Inr (v, r\<lparr>cursor := cursor r + k\<rparr>)"
    and "k = 4 \<Longrightarrow> \<exists>v. ReadFloat32 r = Inr (v, r\<lparr>cursor := cursor r + k\<rparr>)"
  using assms
  by (simp_all add: signed_over_def unsigned_over_def read_signed_def read_unsigned_ok
      ReadFloat16_def ReadFloat32_def)

lemma read_scalars_ok:
  assumes step: "\<And>r. cursor r + w \<le> length (data r) \<Longrightarrow>
      \<exists>v. rd r = Inr (v, r\<lparr>cursor := cursor r + w\<rparr>) \<and> P v"
    and enough: "cursor r + n * w \<le> length (data r)"
  shows "\<exists>buf'. read_scalars rd n (buf, index, r) =
        Inr (buf', index + n, r\<lparr>cursor := cursor r + n * w\<rparr>) \<and>
      length buf' = length buf \<and>
      (\<forall>j<index. buf' ! j = buf ! j) \<and>
      (\<forall>j<n. index + j < length buf \<longrightarrow> P (buf' ! (index + j)))"
  using enough
proof (induction n arbitrary: buf index r)
  case 0
  show ?case by simp
next
  case (Suc n)
  from Suc.prems have "cursor r + w \<le> length (data r)" by simp
  from step [OF this] obtain v where v: "rd r = Inr (v, r\<lparr>cursor := cursor r + w\<rparr>)" "P v"
    by blast
  let ?r = "r\<lparr>cursor := cursor r + w\<rparr>"
  from Suc.prems have "cursor ?r + n * w \<le> length (data ?r)" by simp
  from Suc.IH [OF this, of "buf[index := v]" "index + 1"] obtain buf' where
    run: "read_scalars rd n (buf[index := v], index + 1, ?r) =
        Inr (buf', index + 1 + n, ?r\<lparr>cursor := cursor ?r + n * w\<rparr>)"
    and len: "length buf' = length buf"
    and keep: "\<forall>j<index + 1. buf' ! j = buf[index := v] ! j"
    and new: "\<forall>j<n. index + 1 + j < length buf \<longrightarrow> P (buf' ! (index + 1 + j))"
    by auto
  have "P (buf' ! (index + j))" if j: "j < Suc n" "index + j < length buf" for j
  proof (cases j)
    case 0
    with keep j v(2) show ?thesis by simp
  next
    case (Suc j')
    with new j show ?thesis by simp
  qed
  moreover from keep have "\<forall>j<index. buf' ! j = buf ! j" by simp
  ultimately show ?case using v(1) run len by (simp add: add.assoc add.commute)
qed

lemma read_element_supported:
  "supported (fileType el) \<Longrightarrow>
   read_element p el st = read_scalars (element_reader (fileType el)) (elements el) st"
  by (auto simp: supported_def read_element_def element_reader_def Let_def)


lemma element_reader_step:
  assumes "supported ft" and enough: "cursor r + scalar_bytes ft \<le> length (data r)"
  shows "\<exists>v. element_reader ft r = Inr (v, r\<lparr>cursor := cursor r + scalar_bytes ft\<rparr>) \<and>
           code_range ft v"
proof -
  from assms(1) consider "ft AND 0xf = 0" | "ft AND 0xf = 1" | "ft AND 0xf = 2"
    | "ft AND 0xf = 3" | "ft AND 0xf = 4" | "ft AND 0xf = 8" | "ft AND 0xf = 9"
    | "ft AND 0xf = 10"
    by (auto simp: supported_def)
  then show ?thesis
  proof cases
    case 1
    with enough have one: "cursor r + 1 \<le> length (data r)" by (simp add: scalar_bytes_def)
    show ?thesis
    proof (cases "ft AND 0x10 \<noteq> 0")
      case True
      with 1 signed_byte_over [OF one, of 127] show ?thesis
        by (simp add: element_reader_def scalar_bytes_def code_range_def is_normalized_def
            is_signed_def)
    next
      case False
      with 1 any_read(1) [OF one, of 1] show ?thesis
        by (simp add: element_reader_def scalar_bytes_def code_range_def is_normalized_def
            ReadInt8_def)
    qed
  next
    case 2
    show ?thesis
    proof (cases "ft AND 0x10 \<noteq> 0")
      case True
      with 2 enough have one: "cursor r + 1 \<le> length (data r)" by (simp add: scalar_bytes_def)
      from True 2 signed_byte_over [OF one, of 32767] show ?thesis
        by (simp add: element_reader_def scalar_bytes_def code_range_def is_normalized_def
            is_signed_def)
    next
      case False
      with 2 enough have two: "cursor r + 2 \<le> length (data r)" by (simp add: scalar_bytes_def)
      from False 2 any_read(1) [OF two, of 1] show ?thesis
        by (simp add: element_reader_def scalar_bytes_def code_range_def is_normalized_def
            ReadInt16_def)
    qed
  next
    case 3
    with enough have four: "cursor r + 4 \<le> length (data r)" by (simp add: scalar_bytes_def)
    from 3 any_read(1) [OF four, of 1] show ?thesis
      by (simp add: element_reader_def scalar_bytes_def code_range_def is_normalized_def
          ReadInt32_def)
  next
    case 4
    with enough have two: "cursor r + 2 \<le> length (data r)" by (simp add: scalar_bytes_def)
    from 4 any_read(3) [OF two] show ?thesis
      by (simp add: element_reader_def scalar_bytes_def code_range_def is_normalized_def)
  next
    case 5
    with enough have four: "cursor r + 4 \<le> length (data r)" by (simp add: scalar_bytes_def)
    from 5 any_read(4) [OF four] show ?thesis
      by (simp add: element_reader_def scalar_bytes_def code_range_def is_normalized_def)
  next
    case 6
    with enough have one: "cursor r + 1 \<le> length (data r)" by (simp add: scalar_bytes_def)
    show ?thesis
    proof (cases "ft AND 0x10 \<noteq> 0")
      case True
      with 6 unsigned_byte_over [OF one, of 255] show ?thesis
        by (simp add: element_reader_def scalar_bytes_def code_range_def is_normalized_def
            is_signed_def)
    next
      case False
      with 6 any_read(2) [OF one, of 1] show ?thesis
        by (simp add: element_reader_def scalar_bytes_def code_range_def is_normalized_def
            ReadUInt8_def)
    qed
  next
    case 7
    show ?thesis
    proof (cases "ft AND 0x10 \<noteq> 0")
      case True
      with 7 enough have one: "cursor r + 1 \<le> length (data r)" by (simp add: scalar_bytes_def)
      from True 7 unsigned_byte_over [OF one, of 65535] show ?thesis
        by (simp add: element_reader_def scalar_bytes_def code_range_def is_normalized_def
            is_signed_def)
    next
      case False
      with 7 enough have two: "cursor r + 2 \<le> length (data r)" by (simp add: scalar_bytes_def)
      from False 7 any_read(2) [OF two, of 1] show ?thesis
        by (simp add: element_reader_def scalar_bytes_def code_range_def is_normalized_def
            ReadUInt16_def)
    qed
  next
    case 8
    with enough have four: "cursor r + 4 \<le> length (data r)" by (simp add: scalar_bytes_def)
    from 8 any_read(2) [OF four, of 1] show ?thesis
      by (simp add: element_reader_def scalar_bytes_def code_range_def is_normalized_def
          ReadUInt32_def)
  qed
qed

lemma read_element_ok:
  assumes "supported (fileType el)"
    and "cursor r + elements el * scalar_bytes (fileType el) \<le> length (data r)"
  shows "\<exists>buf'. read_element p el (buf, index, r) =
        Inr (buf', index + elements el,
             r\<lparr>cursor := cursor r + elements el * scalar_bytes (fileType el)\<rparr>) \<and>
      length buf' = length buf \<and>
      (\<forall>j<index. buf' ! j = buf ! j) \<and>
      (\<forall>j<elements el. index + j < length buf \<longrightarrow> code_range (fileType el) (buf' ! (index + j)))"
  unfolding read_element_supported [OF assms(1)]
  by (rule read_scalars_ok [where P = "code_range (fileType el)", OF _ assms(2)])
     (rule element_reader_step [OF assms(1)])

lemma read_vertex_ok:
  assumes "\<forall>el\<in>set els. supported (fileType el)"
    and "cursor r + vertex_bytes els \<le> length (data r)"
  shows "\<exists>buf'. read_vertex p els (buf, index, r) =
        Inr (buf', index + vertex_size els, r\<lparr>cursor := cursor r + vertex_bytes els\<rparr>) \<and>
      length buf' = length buf \<and>
      (\<forall>j<index. buf' ! j = buf ! j) \<and>
      (\<forall>j<vertex_size els. index + j < length buf \<longrightarrow>
         code_range (slot_types els ! j) (buf' ! (index + j)))"
  using assms
proof (induction els arbitrary: buf index r)
  case Nil
  show ?case by (simp add: vertex_size_def vertex_bytes_def)
next
  case (Cons el els)
  let ?n = "elements el"
  let ?w = "?n * scalar_bytes (fileType el)"
  let ?r = "r\<lparr>cursor := cursor r + ?w\<rparr>"
  from Cons.prems have sup: "supported (fileType el)" and sups: "\<forall>el\<in>set els. supported (fileType el)"
    and here: "cursor r + ?w \<le> length (data r)"
    and rest: "cursor ?r + vertex_bytes els \<le> length (data ?r)"
    by (simp_all add: vertex_bytes_def)
  from read_element_ok [OF sup here, of p buf index] obtain buf1 where
    e: "read_element p el (buf, index, r) = Inr (buf1, index + ?n, ?r)"
    and len1: "length buf1 = length buf"
    and keep1: "\<forall>j<index. buf1 ! j = buf ! j"
    and new1: "\<forall>j<?n. index + j < length buf \<longrightarrow> code_range (fileType el) (buf1 ! (index + j))"
    by blast
  from Cons.IH [OF sups rest, of buf1 "index + ?n"] obtain buf2 where
    v: "read_vertex p els (buf1, index + ?n, ?r) =
          Inr (buf2, index + ?n + vertex_size els, ?r\<lparr>cursor := cursor ?r + vertex_bytes els\<rparr>)"
    and len2: "length buf2 = length buf1"
    and keep2: "\<forall>j<index + ?n. buf2 ! j = buf1 ! j"
    and new2: "\<forall>j<vertex_size els. index + ?n + j < length buf1 \<longrightarrow>
         code_range (slot_types els ! j) (buf2 ! (index + ?n + j))"
    by blast
  have slots: "slot_types (el # els) = replicate ?n (fileType el) @ slot_types els"
    by (simp add: slot_types_def)
  have "code_range (slot_types (el # els) ! j) (buf2 ! (index + j))"
    if j: "j < vertex_size (el # els)" "index + j < length buf" for j
  proof (cases "j < ?n")
    case True
    with keep2 new1 j show ?thesis by (simp add: slots nth_append)
  next
    case False
    with j have less: "j - ?n < vertex_size els" by (simp add: vertex_size_def)
    from False have shift: "index + ?n + (j - ?n) = index + j" by simp
    from new2 less have "index + ?n + (j - ?n) < length buf1 \<longrightarrow>
        code_range (slot_types els ! (j - ?n)) (buf2 ! (index + ?n + (j - ?n)))"
      by blast
    with j len1 have "code_range (slot_types els ! (j - ?n)) (buf2 ! (index + j))"
      by (simp add: shift)
    with False show ?thesis by (simp add: slots nth_append)
  qed
  moreover from keep1 keep2 have "\<forall>j<index. buf2 ! j = buf ! j" by simp
  ultimately show ?case using e v len1 len2
    by (simp add: vertex_size_def vertex_bytes_def add.assoc)
qed

lemma read_vertices_ok:
  assumes "\<forall>el\<in>set els. supported (fileType el)"
    and "cursor r + n * vertex_bytes els \<le> length (data r)"
  shows "\<exists>buf'. read_vertices p els n (buf, index, r) =
        Inr (buf', index + n * vertex_size els, r\<lparr>cursor := cursor r + n * vertex_bytes els\<rparr>) \<and>
      length buf' = length buf \<and>
      (\<forall>j<index. buf' ! j = buf ! j) \<and>
      (\<forall>j<n * vertex_size els. index + j < length buf \<longrightarrow>
         code_range (slot_types els ! (j mod vertex_size els)) (buf' ! (index + j)))"
  using assms(2)
proof (induction n arbitrary: buf index r)
  case 0
  show ?case by simp
next
  case (Suc n)
  let ?s = "vertex_size els"
  let ?r = "r\<lparr>cursor := cursor r + vertex_bytes els\<rparr>"
  from Suc.prems have here: "cursor r + vertex_bytes els \<le> length (data r)"
    and rest: "cursor ?r + n * vertex_bytes els \<le> length (data ?r)"
    by simp_all
  from read_vertex_ok [OF assms(1) here, of p buf index] obtain buf1 where
    e: "read_vertex p els (buf, index, r) = Inr (buf1, index + ?s, ?r)"
    and len1: "length buf1 = length buf"
    and keep1: "\<forall>j<index. buf1 ! j = buf ! j"
    and new1: "\<forall>j<?s. index + j < length buf \<longrightarrow> code_range (slot_types els ! j) (buf1 ! (index + j))"
    by blast
  from Suc.IH [OF rest, of buf1 "index + ?s"] obtain buf2 where
    v: "read_vertices p els n (buf1, index + ?s, ?r) =
          Inr (buf2, index + ?s + n * ?s, ?r\<lparr>cursor := cursor ?r + n * vertex_bytes els\<rparr>)"
    and len2: "length buf2 = length buf1"
    and keep2: "\<forall>j<index + ?s. buf2 ! j = buf1 ! j"
    and new2: "\<forall>j<n * ?s. index + ?s + j < length buf1 \<longrightarrow>
         code_range (slot_types els ! (j mod ?s)) (buf2 ! (index + ?s + j))"
    by blast
  have "code_range (slot_types els ! (j mod ?s)) (buf2 ! (index + j))"
    if j: "j < Suc n * ?s" "index + j < length buf" for j
  proof (cases "j < ?s")
    case True
    with keep2 new1 j show ?thesis by simp
  next
    case False
    with j have less: "j - ?s < n * ?s" by simp
    from False have shift: "index + ?s + (j - ?s) = index + j" by simp
    from new2 less have "index + ?s + (j - ?s) < length buf1 \<longrightarrow>
        code_range (slot_types els ! ((j - ?s) mod ?s)) (buf2 ! (index + ?s + (j - ?s)))"
      by blast
    with j len1 have "code_range (slot_types els ! ((j - ?s) mod ?s)) (buf2 ! (index + j))"
      by (simp add: shift)
    with False show ?thesis by (simp add: le_mod_geq)
  qed
  moreover from keep1 keep2 have "\<forall>j<index. buf2 ! j = buf ! j" by simp
  ultimately show ?case using e v len1 len2
    by (simp add: add.assoc add.commute)
qed

lemma js_set_at:
  assumes "i \<le> length xs"
  shows "length (js_set xs i v) = max (length xs) (i + 1)"
    and "js_set xs i v ! i = v"
    and "take i (js_set xs i v) = take i xs"
  using assms by (auto simp: js_set_def nth_append)

lemma read_declaration_result:
  assumes "read_declaration n i (els, vs, r) = Inr (els', vs', r')" and "i \<le> length els"
  shows "i + n \<le> length els' \<and> take i els' = take i els \<and>
     (\<forall>el\<in>set (take n (drop i els')). elements el = drop_bit 5 (fileType el) + 1) \<and>
     vs' = vs + vertex_size (take n (drop i els'))"
  using assms
proof (induction n arbitrary: i els vs r)
  case 0
  then show ?case by (simp add: vertex_size_def)
next
  case (Suc n)
  from Suc.prems(1) obtain u ui ft r3 where
    loop: "read_declaration n (i + 1)
       (js_set els i \<lparr>usage = u, usageIndex = ui, fileType = ft,
                      elements = drop_bit 5 ft + 1, offset = vs * 4\<rparr>,
        vs + (drop_bit 5 ft + 1), r3) = Inr (els', vs', r')"
    by (auto simp: Let_def split: sum.splits)
  let ?el = "\<lparr>usage = u, usageIndex = ui, fileType = ft,
              elements = drop_bit 5 ft + 1, offset = vs * 4\<rparr>"
  let ?els = "js_set els i ?el"
  from js_set_at [OF Suc.prems(2), of ?el]
  have len: "i + 1 \<le> length ?els" and at: "?els ! i = ?el" and before: "take i ?els = take i els"
    by simp_all
  from Suc.IH [OF loop len]
  have long: "i + 1 + n \<le> length els'" and same: "take (i + 1) els' = take (i + 1) ?els"
    and rest: "\<forall>el\<in>set (take n (drop (i + 1) els')). elements el = drop_bit 5 (fileType el) + 1"
    and size: "vs' = vs + (drop_bit 5 ft + 1) + vertex_size (take n (drop (i + 1) els'))"
    by simp_all
  from long len same have "els' ! i = ?els ! i"
    by (metis Suc_eq_plus1 lessI nth_take)
  with at have here: "els' ! i = ?el" by simp
  from long have split: "take (Suc n) (drop i els') = els' ! i # take n (drop (i + 1) els')"
    by (simp add: Cons_nth_drop_Suc [symmetric])
  from same have "take i (take (i + 1) els') = take i (take (i + 1) ?els)" by simp
  then have "take i els' = take i ?els" by (simp add: min_def)
  with before have "take i els' = take i els" by simp
  with long rest size here show ?case
    by (simp add: split vertex_size_def)
qed

lemma read_header_result:
  assumes "read_header reader decl = Inr (declCount, decl', vertexSize, vertexCount, r)"
  shows "(\<forall>el\<in>set (take declCount (decl_elements decl')).
            elements el = drop_bit 5 (fileType el) + 1) \<and>
     vertexSize = vertex_size (take declCount (decl_elements decl')) \<and>
     stride decl' = vertexSize * 4"
proof -
  from assms obtain r1 els r2 where
    d: "read_declaration declCount 0 (decl_elements decl, 0, r1) = Inr (els, vertexSize, r2)"
    and "decl' = decl\<lparr>decl_elements := els, stride := vertexSize * 4\<rparr>"
    by (auto simp: read_header_def split: sum.splits)
  with read_declaration_result [OF d] show ?thesis by simp
qed


text \<open>
  C1, as the code has it. When the header has been read, the vertex count \<open>n\<close> is not
  zero, every element has a supported file type and the data holds the bytes of \<open>n\<close>
  vertices, \<open>ReadVertexBuffer\<close> returns a buffer. Each element has
  \<open>(fileType >> 5) + 1\<close> components; decoding one element of one vertex reads that
  many encoded scalars and writes that many entries, so the \<open>n\<close> vertices take
  \<open>n\<close> times the bytes of a vertex and fill the buffer, whose length is \<open>n\<close> times
  the sum of the component counts, to its end. Every entry of a normalized element lies
  in \<open>[-128/127, 1]\<close> for the signed file types 0 and 1 and in \<open>[0, 1]\<close> for the
  unsigned file types 8 and 9.
\<close>

theorem ReadVertexBuffer_decodes:
  assumes "read_header reader decl = Inr (declCount, decl', vertexSize, n, r)"
    and "n \<noteq> 0"
    and "els = take declCount (decl_elements decl')"
    and "\<forall>el\<in>set els. supported (fileType el)"
    and "cursor r + n * vertex_bytes els \<le> length (data r)"
  shows "\<exists>buf r'.
      ReadVertexBuffer reader decl p = Inr (Some buf, decl', r') \<and>
      read_vertices p els n (replicate (vertexSize * n) (Num 0), 0, r) =
        Inr (buf, n * vertex_size els, r') \<and>
      (\<forall>el\<in>set els. elements el = drop_bit 5 (fileType el) + 1) \<and>
      vertexSize = vertex_size els \<and>
      length buf = n * vertex_size els \<and>
      cursor r' = cursor r + n * vertex_bytes els \<and>
      (\<forall>el\<in>set els. \<forall>b i r0.
         cursor r0 + elements el * scalar_bytes (fileType el) \<le> length (data r0) \<longrightarrow>
         (\<exists>b'. read_element p el (b, i, r0) =
            Inr (b', i + elements el,
                 r0\<lparr>cursor := cursor r0 + elements el * scalar_bytes (fileType el)\<rparr>))) \<and>
      (\<forall>j<length buf. code_range (slot_types els ! (j mod vertex_size els)) (buf ! j))"
proof -
  from read_header_result [OF assms(1)] assms(3)
  have comps: "\<forall>el\<in>set els. elements el = drop_bit 5 (fileType el) + 1"
    and size: "vertexSize = vertex_size els"
    by simp_all
  from read_vertices_ok [OF assms(4,5), of p "replicate (vertexSize * n) (Num 0)" 0]
  obtain buf where
    run: "read_vertices p els n (replicate (vertexSize * n) (Num 0), 0, r) =
        Inr (buf, n * vertex_size els, r\<lparr>cursor := cursor r + n * vertex_bytes els\<rparr>)"
    and len: "length buf = vertexSize * n"
    and range: "\<forall>j<n * vertex_size els. j < vertexSize * n \<longrightarrow>
         code_range (slot_types els ! (j mod vertex_size els)) (buf ! j)"
    by auto
  have each: "\<exists>b'. read_element p el (b, i, r0) =
            Inr (b', i + elements el,
                 r0\<lparr>cursor := cursor r0 + elements el * scalar_bytes (fileType el)\<rparr>)"
    if "el \<in> set els" "cursor r0 + elements el * scalar_bytes (fileType el) \<le> length (data r0)"
    for el b i r0
    using read_element_ok [of el r0 p b i] that assms(4) by blast
  from assms(1,2,3) run
  have "ReadVertexBuffer reader decl p =
      Inr (Some buf, decl', r\<lparr>cursor := cursor r + n * vertex_bytes els\<rparr>)"
    by (simp add: ReadVertexBuffer_def)
  with run comps size len range each show ?thesis
    by (simp add: mult.commute)
qed


text \<open>The stream of two elements and two vertices.\<close>

theorem ReadVertexBuffer_decodes_witness:
  "read_header two_element_stream empty_declaration =
     Inr (2, two_element_declaration, 5, 2, two_element_stream\<lparr>cursor := 11\<rparr>) \<and>
   list_all (\<lambda>el. supported (fileType el)) (decl_elements two_element_declaration) \<and>
   11 + 2 * vertex_bytes (decl_elements two_element_declaration) = 21 \<and>
   ReadVertexBuffer two_element_stream empty_declaration ''res:/hull.wbg'' =
     Inr (Some [Num (- 128 / 127), Num 1, Num (1 / 127), Num 1, Num 0,
                Num (3 / 127), Num (4 / 127), Num (5 / 127), Num (51 / 255), Num (102 / 255)],
          two_element_declaration, two_element_stream\<lparr>cursor := 21\<rparr>) \<and>
   (\<exists>buf r'.
      ReadVertexBuffer two_element_stream empty_declaration ''res:/hull.wbg'' =
        Inr (Some buf, two_element_declaration, r') \<and>
      length buf = 2 * vertex_size (decl_elements two_element_declaration) \<and>
      cursor r' = 11 + 2 * vertex_bytes (decl_elements two_element_declaration))"
proof -
  let ?els = "decl_elements two_element_declaration"
  let ?r = "two_element_stream\<lparr>cursor := 11\<rparr>"
  have header: "read_header two_element_stream empty_declaration =
      Inr (2, two_element_declaration, 5, 2, ?r)"
    by code_simp
  have els: "?els = take 2 ?els"
    by code_simp
  have sup: "list_all (\<lambda>el. supported (fileType el)) ?els"
    by code_simp
  have bytes: "11 + 2 * vertex_bytes ?els = 21"
    by code_simp
  have enough: "cursor ?r + 2 * vertex_bytes ?els \<le> length (data ?r)"
    by code_simp
  have result: "ReadVertexBuffer two_element_stream empty_declaration ''res:/hull.wbg'' =
      Inr (Some [Num (- 128 / 127), Num 1, Num (1 / 127), Num 1, Num 0,
                 Num (3 / 127), Num (4 / 127), Num (5 / 127), Num (51 / 255), Num (102 / 255)],
           two_element_declaration, two_element_stream\<lparr>cursor := 21\<rparr>)"
    by code_simp
  from sup have sup': "\<forall>el\<in>set ?els. supported (fileType el)"
    by (simp add: list_all_iff)
  from ReadVertexBuffer_decodes [OF header _ els sup' enough, of "''res:/hull.wbg''"]
  obtain buf r' where
    "ReadVertexBuffer two_element_stream empty_declaration ''res:/hull.wbg'' =
        Inr (Some buf, two_element_declaration, r')"
    "length buf = 2 * vertex_size ?els" "cursor r' = cursor ?r + 2 * vertex_bytes ?els"
    by auto
  then have "\<exists>buf r'.
      ReadVertexBuffer two_element_stream empty_declaration ''res:/hull.wbg'' =
        Inr (Some buf, two_element_declaration, r') \<and>
      length buf = 2 * vertex_size ?els \<and>
      cursor r' = 11 + 2 * vertex_bytes ?els"
    by simp
  with header sup bytes result show ?thesis by blast
qed

text \<open>
  C1 as stated fails: the byte \<open>0x80\<close> of a normalized element of file type 0 is read as
  \<open>-128\<close> and divided by 127, which is below \<open>-1\<close>.
\<close>

theorem normalized_signed_range_counterexample:
  "supported 0x10 \<and> is_normalized 0x10 \<and> is_signed 0x10 \<and>
   ReadVertexBuffer signed_byte_stream empty_declaration ''res:/hull.wbg'' =
     Inr (Some [Num (- 128 / 127)],
          \<lparr>decl_elements =
             [\<lparr>usage = 0, usageIndex = 0, fileType = 0x10, elements = 1, offset = 0\<rparr>],
           stride = 4\<rparr>,
          signed_byte_stream\<lparr>cursor := 9\<rparr>) \<and>
   \<not> spec_range 0x10 (Num (- 128 / 127))"
  by code_simp



end
